theory Spec2Isabelle
  imports Complex_Main
begin

section \<open>Common types\<close>

text \<open>
  The template parameter \<open>TF\<close> of the C++ classes is \<open>float\<close> or \<open>double\<close>. The
  embedding reads it as a real number: the properties below concern which value is
  stored where, comparisons and single subtractions, not rounding.
\<close>

type_synonym TF = real

text \<open>
  Every way a call can leave its normal path. \<open>Runtime_error\<close> is
  \<open>std::runtime_error\<close> with its message, \<open>Out_of_range\<close> is what \<open>std::map::at\<close>
  throws for a missing key. \<open>Out_of_bounds\<close> marks an \<open>Array\<close> access outside the
  declared extents: C++ gives such an access no meaning, and the embedding stops there.
  \<open>Configuration_error\<close> and \<open>Dimension_error\<close> are the two fatal conditions the
  specification names for the gas-optics engine.
\<close>

datatype error =
    Runtime_error string
  | Out_of_range
  | Out_of_bounds
  | Configuration_error string
  | Dimension_error

definition bnd :: "error + 'a \<Rightarrow> ('a \<Rightarrow> error + 'b) \<Rightarrow> error + 'b" where
  "bnd m f = (case m of Inl e \<Rightarrow> Inl e | Inr x \<Rightarrow> f x)"


section \<open>Arrays\<close>

text \<open>
  \<open>Array<T,N>\<close> comes from Array.h, which is not among the sources here. The code
  indexes it from 1 (\<open>arr({icol, igpt})\<close>, \<open>arr.dim(2)\<close>). An array is kept as its extents
  and its elements by index; how the elements lie in memory is left out. \<open>get2\<close> and
  \<open>set2\<close> are \<open>operator()\<close> read and written, with an index outside the extents turned
  into \<open>Out_of_bounds\<close>.
\<close>

record 'a Array_1 =
  dims1 :: int
  elems1 :: "int \<Rightarrow> 'a"

record 'a Array_2 =
  dims2 :: "int \<times> int"
  elems2 :: "int \<times> int \<Rightarrow> 'a"

record 'a Array_3 =
  dims3 :: "int \<times> int \<times> int"
  elems3 :: "int \<times> int \<times> int \<Rightarrow> 'a"

definition dim2 :: "'a Array_2 \<Rightarrow> int \<Rightarrow> int" where
  "dim2 a n = (if n = 1 then fst (dims2 a) else snd (dims2 a))"

definition inside2 :: "'a Array_2 \<Rightarrow> int \<times> int \<Rightarrow> bool" where
  "inside2 a idx =
     (1 \<le> fst idx \<and> fst idx \<le> fst (dims2 a) \<and> 1 \<le> snd idx \<and> snd idx \<le> snd (dims2 a))"

definition get2 :: "'a Array_2 \<Rightarrow> int \<times> int \<Rightarrow> error + 'a" where
  "get2 a idx = (if inside2 a idx then Inr (elems2 a idx) else Inl Out_of_bounds)"

definition set2 :: "'a Array_2 \<Rightarrow> int \<times> int \<Rightarrow> 'a \<Rightarrow> error + 'a Array_2" where
  "set2 a idx v =
     (if inside2 a idx then Inr (a\<lparr>elems2 := (elems2 a)(idx := v)\<rparr>) else Inl Out_of_bounds)"

text \<open>A freshly constructed array of the given extents holds zeros.\<close>

definition zeros1 :: "int \<Rightarrow> TF Array_1" where
  "zeros1 n = \<lparr> dims1 = n, elems1 = (\<lambda>i. 0) \<rparr>"

definition zeros2 :: "int \<Rightarrow> int \<Rightarrow> TF Array_2" where
  "zeros2 n1 n2 = \<lparr> dims2 = (n1, n2), elems2 = (\<lambda>idx. 0) \<rparr>"

definition zeros3 :: "int \<Rightarrow> int \<Rightarrow> int \<Rightarrow> TF Array_3" where
  "zeros3 n1 n2 n3 = \<lparr> dims3 = (n1, n2, n3), elems3 = (\<lambda>idx. 0) \<rparr>"


section \<open>Counting loops\<close>

text \<open>
  \<open>for (int i = lo; i <= hi; ++i) body\<close>, with a body that may stop the whole loop with an
  error. The counter is an unbounded integer: it never leaves the extents of the arrays
  it indexes without the body stopping.
\<close>

function for_loop :: "int \<Rightarrow> int \<Rightarrow> (int \<Rightarrow> 's \<Rightarrow> error + 's) \<Rightarrow> 's \<Rightarrow> error + 's" where
  "for_loop i hi body s =
     (if i \<le> hi
      then (case body i s of Inl e \<Rightarrow> Inl e | Inr s' \<Rightarrow> for_loop (i + 1) hi body s')
      else Inr s)"
  by pat_completeness auto
termination
  by (relation "measure (\<lambda>(i, hi, body, s). nat (hi + 1 - i))") auto

declare for_loop.simps [simp del]

text \<open>The same loop over the list of the values its counter takes; used in the proofs.\<close>

primrec run :: "('x \<Rightarrow> 's \<Rightarrow> error + 's) \<Rightarrow> 'x list \<Rightarrow> 's \<Rightarrow> error + 's" where
  "run body [] s = Inr s"
| "run body (x # xs) s = (case body x s of Inl e \<Rightarrow> Inl e | Inr s' \<Rightarrow> run body xs s')"


section \<open>Surface albedo per spectral point: \<open>Rte_sw::expand_and_transpose\<close>\<close>

text \<open>
  \<open>Optical_props_arry\<close> is declared in Optical\_props.h, not among the sources. The solver
  only calls its getters; the record holds what they return. \<open>get_band_lims_gpoint\<close> is
  the \<open>2 \<times> nband\<close> table of the first and last spectral point of every band.
\<close>

record Optical_props_arry =
  get_ncol :: int
  get_nlay :: int
  get_ngpt :: int
  get_nband :: int
  get_band_lims_gpoint :: "int Array_2"
  get_tau :: "TF Array_3"
  get_ssa :: "TF Array_3"
  get_g :: "TF Array_3"

text \<open>
  The state of the triple loop is the output array. Next to it the embedding keeps the
  list of the assignments made so far, target index and value stored, oldest first; the
  code has no such list, and nothing reads it back.
\<close>

type_synonym assignment = "(int \<times> int) \<times> TF"

record expand_state =
  arr_out :: "TF Array_2"
  assigned :: "assignment list"

text \<open>\<open>arr_out({icol, igpt}) = v\<close>\<close>

definition assign :: "int \<Rightarrow> int \<Rightarrow> TF \<Rightarrow> expand_state \<Rightarrow> error + expand_state" where
  "assign icol igpt v st =
     bnd (set2 (arr_out st) (icol, igpt) v) (\<lambda>a.
       Inr \<lparr>arr_out = a, assigned = assigned st @ [((icol, igpt), v)]\<rparr>)"

text \<open>The body of the innermost loop: \<open>arr_out({icol, igpt}) = arr_in({iband, icol})\<close>.\<close>

definition expand_gpt ::
  "TF Array_2 \<Rightarrow> int \<Rightarrow> int \<Rightarrow> int \<Rightarrow> expand_state \<Rightarrow> error + expand_state" where
  "expand_gpt arr_in iband icol igpt st =
     bnd (get2 arr_in (iband, icol)) (\<lambda>v. assign icol igpt v st)"

text \<open>
  The body of the loop over \<open>icol\<close>: the loop over \<open>igpt\<close> from \<open>limits({1, iband})\<close> to
  \<open>limits({2, iband})\<close>.
\<close>

definition expand_col ::
  "int Array_2 \<Rightarrow> TF Array_2 \<Rightarrow> int \<Rightarrow> int \<Rightarrow> expand_state \<Rightarrow> error + expand_state" where
  "expand_col limits arr_in iband icol st =
     bnd (get2 limits (1, iband)) (\<lambda>lo.
       bnd (get2 limits (2, iband)) (\<lambda>hi.
         for_loop lo hi (expand_gpt arr_in iband icol) st))"

text \<open>The body of the loop over \<open>iband\<close>: the loop over \<open>icol\<close> from 1 to \<open>ncol\<close>.\<close>

definition expand_band ::
  "int Array_2 \<Rightarrow> TF Array_2 \<Rightarrow> int \<Rightarrow> int \<Rightarrow> expand_state \<Rightarrow> error + expand_state" where
  "expand_band limits arr_in ncol iband st =
     for_loop 1 ncol (expand_col limits arr_in iband) st"

text \<open>
  \<open>arr_in\<close> is passed by value, so it cannot change while \<open>arr_out\<close> is written.
\<close>

definition expand_and_transpose ::
  "Optical_props_arry \<Rightarrow> TF Array_2 \<Rightarrow> TF Array_2 \<Rightarrow> error + expand_state" where
  "expand_and_transpose ops arr_in arr_out0 =
     (let ncol = dim2 arr_in 2;
          nband = get_nband ops;
          limits = get_band_lims_gpoint ops
      in for_loop 1 nband (expand_band limits arr_in ncol)
           \<lparr>arr_out = arr_out0, assigned = []\<rparr>)"

text \<open>Notions for stating what the loop does.\<close>

definition in_band :: "int Array_2 \<Rightarrow> int \<Rightarrow> int \<Rightarrow> bool" where
  "in_band limits b g = (elems2 limits (1, b) \<le> g \<and> g \<le> elems2 limits (2, b))"

definition replay :: "assignment list \<Rightarrow> (int \<times> int \<Rightarrow> TF) \<Rightarrow> int \<times> int \<Rightarrow> TF" where
  "replay ws f = fold (\<lambda>w h. h(fst w := snd w)) ws f"

definition col_writes :: "int Array_2 \<Rightarrow> TF Array_2 \<Rightarrow> int \<Rightarrow> int \<Rightarrow> assignment list" where
  "col_writes limits arr_in b c =
     map (\<lambda>g. ((c, g), elems2 arr_in (b, c))) [elems2 limits (1, b)..elems2 limits (2, b)]"

definition band_writes :: "int Array_2 \<Rightarrow> TF Array_2 \<Rightarrow> int \<Rightarrow> int \<Rightarrow> assignment list" where
  "band_writes limits arr_in ncol b = concat (map (col_writes limits arr_in b) [1..ncol])"

definition tracked :: "(int \<times> int \<Rightarrow> TF) \<Rightarrow> expand_state \<Rightarrow> bool" where
  "tracked e0 st = (elems2 (arr_out st) = replay (assigned st) e0)"

definition same_dims :: "TF Array_2 \<Rightarrow> expand_state \<Rightarrow> bool" where
  "same_dims a st = (dims2 (arr_out st) = dims2 a)"


section \<open>The shortwave solver: \<open>Rte_sw::rte_sw\<close>\<close>

text \<open>
  Modelled from the spec: which level is the top (the kernels of \<open>rrtmgp_kernels\<close>
  that use it are not among the sources). \<open>top_at_1\<close> tells whether the first or the
  last of the \<open>nlay + 1\<close> levels is the top of the atmosphere.
\<close>

definition top_level :: "int \<Rightarrow> int \<Rightarrow> int" where
  "top_level top_at_1 nlay = (if top_at_1 \<noteq> 0 then 1 else nlay + 1)"

text \<open>
  Modelled from the spec: the kernel \<open>apply_BC_factor\<close> of \<open>rrtmgp_kernels\<close>
  (rrtmgp\_kernels.h and the kernel are not among the sources; Rte\_sw.cpp only launches
  it). The specification: the direct-beam flux at the top level equals the supplied
  per-column incident flux scaled by the column's \<open>mu0\<close> factor.
\<close>

definition apply_BC_factor ::
  "int \<Rightarrow> int \<Rightarrow> int \<Rightarrow> int \<Rightarrow> TF Array_2 \<Rightarrow> TF Array_1 \<Rightarrow> TF Array_3 \<Rightarrow> TF Array_3" where
  "apply_BC_factor ncol nlay ngpt top_at_1 inc_flux factor gpt_flux =
     gpt_flux\<lparr>elems3 := (\<lambda>(icol, ilev, igpt).
        if ilev = top_level top_at_1 nlay \<and> 1 \<le> icol \<and> icol \<le> ncol \<and> 1 \<le> igpt \<and> igpt \<le> ngpt
        then elems2 inc_flux (icol, igpt) * elems1 factor icol
        else elems3 gpt_flux (icol, ilev, igpt))\<rparr>"

text \<open>
  Modelled from the spec: the kernel \<open>apply_BC_0\<close> of \<open>rrtmgp_kernels\<close> (not among the
  sources; Rte\_sw.cpp only launches it). The specification: the downward diffuse flux
  at the top level is zero.
\<close>

definition apply_BC_0 :: "int \<Rightarrow> int \<Rightarrow> int \<Rightarrow> int \<Rightarrow> TF Array_3 \<Rightarrow> TF Array_3" where
  "apply_BC_0 ncol nlay ngpt top_at_1 gpt_flux =
     gpt_flux\<lparr>elems3 := (\<lambda>(icol, ilev, igpt).
        if ilev = top_level top_at_1 nlay \<and> 1 \<le> icol \<and> icol \<le> ncol \<and> 1 \<le> igpt \<and> igpt \<le> ngpt
        then 0
        else elems3 gpt_flux (icol, ilev, igpt))\<rparr>"

text \<open>
  The two-stream kernel \<open>rrtmgp_kernels::sw_solver_2stream\<close> is not among the sources
  either, and the specification treats it as a black box. It is a parameter of the
  embedding: a function from the arguments of the launcher to the three flux arrays it
  overwrites (up, down, direct).
\<close>

record sw_2stream_args =
  arg_ncol :: int
  arg_nlay :: int
  arg_ngpt :: int
  arg_top_at_1 :: int
  arg_tau :: "TF Array_3"
  arg_ssa :: "TF Array_3"
  arg_g :: "TF Array_3"
  arg_mu0 :: "TF Array_1"
  arg_sfc_alb_dir :: "TF Array_2"
  arg_sfc_alb_dif :: "TF Array_2"
  arg_flux_up :: "TF Array_3"
  arg_flux_dn :: "TF Array_3"
  arg_flux_dir :: "TF Array_3"

type_synonym sw_kernel = "sw_2stream_args \<Rightarrow> TF Array_3 \<times> TF Array_3 \<times> TF Array_3"

text \<open>
  \<open>fluxes->reduce\<close> is a virtual call on the object the caller supplies; the embedding
  takes the method as a parameter.
\<close>

type_synonym 'f reduce_method =
  "TF Array_3 \<Rightarrow> TF Array_3 \<Rightarrow> TF Array_3 \<Rightarrow> Optical_props_arry \<Rightarrow> int \<Rightarrow> 'f \<Rightarrow> 'f"

text \<open>
  What \<open>rte_sw\<close> can call: its own \<open>expand_and_transpose\<close>, the kernels behind the
  launchers of Rte\_sw.cpp, the no-scattering kernel \<open>sw_solver_noscat\<close> that the comment
  in \<open>rte_sw\<close> names as skipped, and \<open>reduce\<close>.
\<close>

datatype call =
    Expand_and_transpose
  | Apply_BC_factor
  | Apply_BC_0
  | Sw_solver_2stream
  | Sw_solver_noscat
  | Reduce

text \<open>
  The local arrays of \<open>rte_sw\<close> and the caller's flux object, together with the list
  of the calls made so far (kept by the embedding only, oldest first).
\<close>

record 'f rte_locals =
  gpt_flux_up :: "TF Array_3"
  gpt_flux_dn :: "TF Array_3"
  gpt_flux_dir :: "TF Array_3"
  sfc_alb_dir_gpt :: "TF Array_2"
  sfc_alb_dif_gpt :: "TF Array_2"
  fluxes :: 'f
  calls :: "call list"

definition called :: "call \<Rightarrow> 'f rte_locals \<Rightarrow> 'f rte_locals" where
  "called k s = s\<lparr>calls := calls s @ [k]\<rparr>"

text \<open>
  The launchers of namespace \<open>rrtmgp_kernel_launcher\<close>. The two overloads of \<open>apply_BC\<close>
  are told apart by the kernel they launch.
\<close>

definition launch_apply_BC_factor ::
  "int \<Rightarrow> int \<Rightarrow> int \<Rightarrow> int \<Rightarrow> TF Array_2 \<Rightarrow> TF Array_1 \<Rightarrow> 'f rte_locals \<Rightarrow> 'f rte_locals" where
  "launch_apply_BC_factor ncol nlay ngpt top_at_1 inc_flux factor s =
     called Apply_BC_factor
       (s\<lparr>gpt_flux_dir :=
            apply_BC_factor ncol nlay ngpt top_at_1 inc_flux factor (gpt_flux_dir s)\<rparr>)"

definition launch_apply_BC_0 ::
  "int \<Rightarrow> int \<Rightarrow> int \<Rightarrow> int \<Rightarrow> 'f rte_locals \<Rightarrow> 'f rte_locals" where
  "launch_apply_BC_0 ncol nlay ngpt top_at_1 s =
     called Apply_BC_0
       (s\<lparr>gpt_flux_dn := apply_BC_0 ncol nlay ngpt top_at_1 (gpt_flux_dn s)\<rparr>)"

definition solver_args ::
  "int \<Rightarrow> int \<Rightarrow> int \<Rightarrow> int \<Rightarrow> Optical_props_arry \<Rightarrow> TF Array_1 \<Rightarrow> 'f rte_locals
     \<Rightarrow> sw_2stream_args" where
  "solver_args ncol nlay ngpt top_at_1 optical_props mu0 s =
     \<lparr> arg_ncol = ncol, arg_nlay = nlay, arg_ngpt = ngpt, arg_top_at_1 = top_at_1,
       arg_tau = get_tau optical_props,
       arg_ssa = get_ssa optical_props,
       arg_g = get_g optical_props,
       arg_mu0 = mu0,
       arg_sfc_alb_dir = sfc_alb_dir_gpt s, arg_sfc_alb_dif = sfc_alb_dif_gpt s,
       arg_flux_up = gpt_flux_up s, arg_flux_dn = gpt_flux_dn s,
       arg_flux_dir = gpt_flux_dir s \<rparr>"

definition launch_sw_solver_2stream ::
  "sw_kernel \<Rightarrow> int \<Rightarrow> int \<Rightarrow> int \<Rightarrow> int \<Rightarrow> Optical_props_arry \<Rightarrow> TF Array_1
     \<Rightarrow> 'f rte_locals \<Rightarrow> 'f rte_locals" where
  "launch_sw_solver_2stream solver ncol nlay ngpt top_at_1 optical_props mu0 s =
     (case solver (solver_args ncol nlay ngpt top_at_1 optical_props mu0 s) of
        (up, dn, dir) \<Rightarrow>
          called Sw_solver_2stream (s\<lparr>gpt_flux_up := up, gpt_flux_dn := dn, gpt_flux_dir := dir\<rparr>))"

text \<open>The two calls \<open>expand_and_transpose(optical_props, sfc_alb_..., sfc_alb_..._gpt)\<close>.\<close>

definition call_expand_dir ::
  "Optical_props_arry \<Rightarrow> TF Array_2 \<Rightarrow> 'f rte_locals \<Rightarrow> error + 'f rte_locals" where
  "call_expand_dir optical_props sfc_alb_dir s =
     bnd (expand_and_transpose optical_props sfc_alb_dir (sfc_alb_dir_gpt s)) (\<lambda>e.
       Inr (called Expand_and_transpose (s\<lparr>sfc_alb_dir_gpt := arr_out e\<rparr>)))"

definition call_expand_dif ::
  "Optical_props_arry \<Rightarrow> TF Array_2 \<Rightarrow> 'f rte_locals \<Rightarrow> error + 'f rte_locals" where
  "call_expand_dif optical_props sfc_alb_dif s =
     bnd (expand_and_transpose optical_props sfc_alb_dif (sfc_alb_dif_gpt s)) (\<lambda>e.
       Inr (called Expand_and_transpose (s\<lparr>sfc_alb_dif_gpt := arr_out e\<rparr>)))"

definition call_reduce ::
  "'f reduce_method \<Rightarrow> Optical_props_arry \<Rightarrow> int \<Rightarrow> 'f rte_locals \<Rightarrow> 'f rte_locals" where
  "call_reduce fluxes_reduce optical_props top_at_1 s =
     called Reduce
       (s\<lparr>fluxes := fluxes_reduce (gpt_flux_up s) (gpt_flux_dn s) (gpt_flux_dir s)
                       optical_props top_at_1 (fluxes s)\<rparr>)"

definition rte_sw ::
  "sw_kernel \<Rightarrow> 'f reduce_method \<Rightarrow> Optical_props_arry \<Rightarrow> int \<Rightarrow> TF Array_1 \<Rightarrow> TF Array_2
     \<Rightarrow> TF Array_2 \<Rightarrow> TF Array_2 \<Rightarrow> 'f \<Rightarrow> error + 'f rte_locals" where
  "rte_sw solver fluxes_reduce optical_props top_at_1 mu0 inc_flux sfc_alb_dir sfc_alb_dif
       fluxes0 =
     (let ncol = get_ncol optical_props;
          nlay = get_nlay optical_props;
          ngpt = get_ngpt optical_props;
          s0 = \<lparr> gpt_flux_up = zeros3 ncol (nlay + 1) ngpt,
                 gpt_flux_dn = zeros3 ncol (nlay + 1) ngpt,
                 gpt_flux_dir = zeros3 ncol (nlay + 1) ngpt,
                 sfc_alb_dir_gpt = zeros2 ncol ngpt,
                 sfc_alb_dif_gpt = zeros2 ncol ngpt,
                 fluxes = fluxes0,
                 calls = [] \<rparr>
      in bnd (call_expand_dir optical_props sfc_alb_dir s0) (\<lambda>s1.
         bnd (call_expand_dif optical_props sfc_alb_dif s1) (\<lambda>s2.
           let s3 = launch_apply_BC_factor ncol nlay ngpt top_at_1 inc_flux mu0 s2;
               s4 = launch_apply_BC_0 ncol nlay ngpt top_at_1 s3;
               s5 = launch_sw_solver_2stream solver ncol nlay ngpt top_at_1 optical_props mu0 s4;
               s6 = call_reduce fluxes_reduce optical_props top_at_1 s5
           in Inr s6)))"

text \<open>
  The flux arrays as the boundary kernels leave them, and the arguments the two-stream
  kernel is then launched with, given the two expanded albedo arrays.
\<close>

definition toa_flux_dir ::
  "Optical_props_arry \<Rightarrow> int \<Rightarrow> TF Array_2 \<Rightarrow> TF Array_1 \<Rightarrow> TF Array_3" where
  "toa_flux_dir ops top_at_1 inc_flux mu0 =
     apply_BC_factor (get_ncol ops) (get_nlay ops) (get_ngpt ops) top_at_1 inc_flux mu0
       (zeros3 (get_ncol ops) (get_nlay ops + 1) (get_ngpt ops))"

definition toa_flux_dn :: "Optical_props_arry \<Rightarrow> int \<Rightarrow> TF Array_3" where
  "toa_flux_dn ops top_at_1 =
     apply_BC_0 (get_ncol ops) (get_nlay ops) (get_ngpt ops) top_at_1
       (zeros3 (get_ncol ops) (get_nlay ops + 1) (get_ngpt ops))"

definition solver_input ::
  "Optical_props_arry \<Rightarrow> int \<Rightarrow> TF Array_1 \<Rightarrow> TF Array_2 \<Rightarrow> TF Array_2 \<Rightarrow> TF Array_2
     \<Rightarrow> sw_2stream_args" where
  "solver_input ops top_at_1 mu0 inc_flux alb_dir_gpt alb_dif_gpt =
     \<lparr> arg_ncol = get_ncol ops, arg_nlay = get_nlay ops, arg_ngpt = get_ngpt ops,
       arg_top_at_1 = top_at_1,
       arg_tau = get_tau ops, arg_ssa = get_ssa ops, arg_g = get_g ops,
       arg_mu0 = mu0,
       arg_sfc_alb_dir = alb_dir_gpt, arg_sfc_alb_dif = alb_dif_gpt,
       arg_flux_up = zeros3 (get_ncol ops) (get_nlay ops + 1) (get_ngpt ops),
       arg_flux_dn = toa_flux_dn ops top_at_1,
       arg_flux_dir = toa_flux_dir ops top_at_1 inc_flux mu0 \<rparr>"


section \<open>The gas-concentration store\<close>

text \<open>
  Modelled from the spec: \<open>Gas_concs\<close> (Gas\_concs.h is not among the sources) maps a
  gas name to a field of rank 0 (global scalar), 1 (per layer) or 2 (per column and
  layer), and \<open>set_vmr(name, field)\<close> stores the field under the name. A field of rank 1
  or 2 is kept with the extents the driver gives it.
\<close>

datatype vmr_field =
    Vmr_scalar TF
  | Vmr_lay "TF list" int
  | Vmr_col_lay "TF list" int int

type_synonym Gas_concs = "string \<rightharpoonup> vmr_field"

definition set_vmr :: "Gas_concs \<Rightarrow> string \<Rightarrow> vmr_field \<Rightarrow> Gas_concs" where
  "set_vmr gas_concs name field = gas_concs(name \<mapsto> field)"


section \<open>The gas-optics engine: \<open>Gas_optics_nn\<close>\<close>

text \<open>
  Modelled from the spec: \<open>Network\<close> (Network.h is not among the sources). An opaque
  inference capability from a feature vector to an output vector, with a lower- and an
  upper-atmosphere predictor behind each of the four networks; the output is read here
  at a spectral point.
\<close>

datatype regime = LowerAtmosphere | UpperAtmosphere

type_synonym Network = "regime \<Rightarrow> TF list \<Rightarrow> int \<Rightarrow> TF"

text \<open>
  Gas\_optics\_nn.h declares the class; the bodies of its constructors and of
  \<open>gas_optics\<close>, \<open>set_solar_variability\<close>, \<open>compute_tau_ssa_nn\<close>,
  \<open>compute_tau_sources_nn\<close> and \<open>lay2sfc_factor\<close> are not among the sources. The record
  holds the data members of the header that the specification speaks of. The layer
  widths read from the weight file stay inside the networks, and \<open>idx_tropo\<close>,
  \<open>lower_atm\<close>, \<open>upper_atm\<close> are the arguments the header gives to the two \<open>compute\<close>
  operations.
\<close>

record Gas_optics_nn =
  press_ref_trop :: TF
  gas_names :: "string list"
  solar_source_quiet :: "TF Array_1"
  solar_source_facular :: "TF Array_1"
  solar_source_sunspot :: "TF Array_1"
  solar_source :: "TF Array_1"
  tsw_network :: Network
  ssa_network :: Network
  tlw_network :: Network
  plk_network :: Network

text \<open>
  The default member initializer of the header:
  \<open>const TF press_ref_trop = 9948.431564193395;\<close>
\<close>

definition press_ref_trop_init :: TF where
  "press_ref_trop_init = 9948.431564193395"

text \<open>
  Modelled from the spec: \<open>set_solar_variability\<close> (private; body not among the
  sources) recomputes the effective solar source as a linear combination of the quiet,
  facular and sunspot components weighted by the two indices. It writes no other
  member.
\<close>

definition set_solar_variability :: "TF \<Rightarrow> TF \<Rightarrow> Gas_optics_nn \<Rightarrow> Gas_optics_nn" where
  "set_solar_variability md_index sb_index this =
     this\<lparr>solar_source :=
       \<lparr> dims1 = dims1 (solar_source_quiet this),
         elems1 = (\<lambda>igpt.
           elems1 (solar_source_quiet this) igpt
           + md_index * elems1 (solar_source_facular this) igpt
           + sb_index * elems1 (solar_source_sunspot this) igpt) \<rparr>\<rparr>"

definition no_network :: Network where
  "no_network = (\<lambda>r x igpt. 0)"

text \<open>
  Modelled from the spec: the longwave constructor (body not among the sources). It
  loads the \<open>tlw\<close> and \<open>plk\<close> networks. Reading the weight file is outside the embedding:
  the networks read from it are arguments. \<open>press_ref_trop\<close> gets the initializer of the
  header.
\<close>

definition Gas_optics_nn_lw :: "string list \<Rightarrow> Network \<Rightarrow> Network \<Rightarrow> Gas_optics_nn" where
  "Gas_optics_nn_lw names tlw plk =
     \<lparr> press_ref_trop = press_ref_trop_init,
       gas_names = names,
       solar_source_quiet = zeros1 0,
       solar_source_facular = zeros1 0,
       solar_source_sunspot = zeros1 0,
       solar_source = zeros1 0,
       tsw_network = no_network, ssa_network = no_network,
       tlw_network = tlw, plk_network = plk \<rparr>"

text \<open>
  Modelled from the spec: the shortwave constructor (body not among the sources). It
  loads the \<open>tsw\<close> and \<open>ssa\<close> networks and the three solar-source components and calls
  \<open>set_solar_variability\<close> once with the default indices. \<open>press_ref_trop\<close> gets the
  initializer of the header.
\<close>

definition Gas_optics_nn_sw ::
  "string list \<Rightarrow> TF Array_1 \<Rightarrow> TF Array_1 \<Rightarrow> TF Array_1 \<Rightarrow> TF \<Rightarrow> TF \<Rightarrow> TF
     \<Rightarrow> Network \<Rightarrow> Network \<Rightarrow> Gas_optics_nn" where
  "Gas_optics_nn_sw names solar_src_quiet solar_src_facular solar_src_sunspot
       tsi_default mg_default sb_default tsw ssa =
     set_solar_variability mg_default sb_default
       \<lparr> press_ref_trop = press_ref_trop_init,
         gas_names = names,
         solar_source_quiet = solar_src_quiet,
         solar_source_facular = solar_src_facular,
         solar_source_sunspot = solar_src_sunspot,
         solar_source = zeros1 (dims1 solar_src_quiet),
         tsw_network = tsw, ssa_network = ssa,
         tlw_network = no_network, plk_network = no_network \<rparr>"

text \<open>
  The objects a \<open>gas_optics\<close> call is handed by reference: the profile inputs, the
  gas-concentration store and the output containers.
\<close>

record Source_func_lw =
  lay_source :: "TF Array_3"
  lev_source_inc :: "TF Array_3"
  lev_source_dec :: "TF Array_3"
  sfc_source :: "TF Array_2"

record caller_state =
  play :: "TF Array_2"
  plev :: "TF Array_2"
  tlay :: "TF Array_2"
  tlev :: "TF Array_2"
  tsfc :: "TF Array_1"
  col_dry :: "TF Array_2"
  gas_desc :: Gas_concs
  optical_props :: Optical_props_arry
  sources :: Source_func_lw
  toa_src :: "TF Array_2"

text \<open>
  What the specification leaves to the trained networks' conventions, taken as
  parameters: how the feature vector of a column and layer is built from the profile and
  the mixing ratios, how the tropopause layer index is found from the reference pressure
  and the layer pressures, and how the Planck network's output and the temperatures give
  the layer, level and surface sources.
\<close>

record nn_conventions =
  features :: "TF Array_2 \<Rightarrow> TF Array_2 \<Rightarrow> TF Array_2 \<Rightarrow> Gas_concs \<Rightarrow> int \<Rightarrow> int \<Rightarrow> TF list"
  find_tropo :: "TF \<Rightarrow> TF Array_2 \<Rightarrow> int"
  planck_lay :: "(int \<Rightarrow> TF) \<Rightarrow> TF Array_2 \<Rightarrow> int \<Rightarrow> int \<Rightarrow> int \<Rightarrow> TF"
  planck_inc :: "(int \<Rightarrow> TF) \<Rightarrow> TF Array_2 \<Rightarrow> int \<Rightarrow> int \<Rightarrow> int \<Rightarrow> TF"
  planck_dec :: "(int \<Rightarrow> TF) \<Rightarrow> TF Array_2 \<Rightarrow> int \<Rightarrow> int \<Rightarrow> int \<Rightarrow> TF"
  planck_sfc :: "TF Array_3 \<Rightarrow> TF Array_2 \<Rightarrow> TF Array_1 \<Rightarrow> int \<Rightarrow> int \<Rightarrow> TF"

text \<open>
  Modelled from the spec: the routing of layers (done inside the \<open>compute\<close> operations,
  whose bodies are not among the sources). Layers up to the tropopause index form the
  lower group, the others the upper group; a group is evaluated when its flag is set.
\<close>

definition routed :: "int \<Rightarrow> int \<Rightarrow> bool \<Rightarrow> bool \<Rightarrow> int \<Rightarrow> bool" where
  "routed nlay idx_tropo lower_atm upper_atm ilay =
     ((lower_atm \<and> 1 \<le> ilay \<and> ilay \<le> idx_tropo \<and> ilay \<le> nlay) \<or>
      (upper_atm \<and> idx_tropo < ilay \<and> 1 \<le> ilay \<and> ilay \<le> nlay))"

text \<open>
  Modelled from the spec: the network regime of a layer, by the same split.
\<close>

definition regime_of :: "int \<Rightarrow> int \<Rightarrow> regime" where
  "regime_of idx_tropo ilay = (if ilay \<le> idx_tropo then LowerAtmosphere else UpperAtmosphere)"

text \<open>Writing a field over columns, routed layers and spectral points, in place.\<close>

definition fill3 ::
  "int \<Rightarrow> int \<Rightarrow> (int \<Rightarrow> bool) \<Rightarrow> (int \<Rightarrow> int \<Rightarrow> int \<Rightarrow> TF) \<Rightarrow> TF Array_3 \<Rightarrow> TF Array_3" where
  "fill3 n1 n3 layer_ok f a =
     a\<lparr>elems3 := (\<lambda>(i, j, k).
        if 1 \<le> i \<and> i \<le> n1 \<and> layer_ok j \<and> 1 \<le> k \<and> k \<le> n3
        then f i j k else elems3 a (i, j, k))\<rparr>"

definition fill2 :: "int \<Rightarrow> int \<Rightarrow> (int \<Rightarrow> int \<Rightarrow> TF) \<Rightarrow> TF Array_2 \<Rightarrow> TF Array_2" where
  "fill2 n1 n2 f a =
     a\<lparr>elems2 := (\<lambda>(i, j).
        if 1 \<le> i \<and> i \<le> n1 \<and> 1 \<le> j \<and> j \<le> n2 then f i j else elems2 a (i, j))\<rparr>"

text \<open>
  Modelled from the spec: \<open>compute_tau_ssa_nn\<close> (declared in the header with these
  arguments; body not among the sources). The feature vector of every column and layer
  is fed through the optical-depth network \<open>tsw\<close> and the single-scatter-albedo network
  \<open>ssa\<close> of the layer's regime; the optical depth is clamped to be non-negative and the
  single-scatter albedo to \<open>[0, 1]\<close> before they are written into the container.
\<close>

definition compute_tau_ssa_nn ::
  "nn_conventions \<Rightarrow> Network \<Rightarrow> Network \<Rightarrow> int \<Rightarrow> int \<Rightarrow> int \<Rightarrow> int \<Rightarrow> int
     \<Rightarrow> TF Array_2 \<Rightarrow> TF Array_2 \<Rightarrow> TF Array_2 \<Rightarrow> Gas_concs \<Rightarrow> Optical_props_arry
     \<Rightarrow> bool \<Rightarrow> bool \<Rightarrow> Optical_props_arry" where
  "compute_tau_ssa_nn cv nw_ssa nw_tsw ncol nlay ngpt nband idx_tropo p_lay p_lev t_lay gases
       props lower_atm upper_atm =
     (let x = features cv p_lay p_lev t_lay gases;
          ok = routed nlay idx_tropo lower_atm upper_atm
      in props
          \<lparr>get_tau := fill3 ncol ngpt ok
             (\<lambda>icol ilay igpt. max 0 (nw_tsw (regime_of idx_tropo ilay) (x icol ilay) igpt))
             (get_tau props),
           get_ssa := fill3 ncol ngpt ok
             (\<lambda>icol ilay igpt.
                min 1 (max 0 (nw_ssa (regime_of idx_tropo ilay) (x icol ilay) igpt)))
             (get_ssa props)\<rparr>)"

text \<open>
  Modelled from the spec: \<open>compute_tau_sources_nn\<close> (declared in the header; body not
  among the sources). The optical depth comes from the \<open>tlw\<close> network, the layer and
  level Planck sources from the \<open>plk\<close> network and the level temperatures.
\<close>

definition compute_tau_sources_nn ::
  "nn_conventions \<Rightarrow> Network \<Rightarrow> Network \<Rightarrow> int \<Rightarrow> int \<Rightarrow> int \<Rightarrow> int \<Rightarrow> int
     \<Rightarrow> TF Array_2 \<Rightarrow> TF Array_2 \<Rightarrow> TF Array_2 \<Rightarrow> TF Array_2 \<Rightarrow> Gas_concs
     \<Rightarrow> Source_func_lw \<Rightarrow> Optical_props_arry \<Rightarrow> bool \<Rightarrow> bool
     \<Rightarrow> Source_func_lw \<times> Optical_props_arry" where
  "compute_tau_sources_nn cv nw_tlw nw_plk ncol nlay ngpt nband idx_tropo p_lay p_lev t_lay t_lev
       gases srcs props lower_atm upper_atm =
     (let x = features cv p_lay p_lev t_lay gases;
          ok = routed nlay idx_tropo lower_atm upper_atm;
          plk = (\<lambda>icol ilay. nw_plk (regime_of idx_tropo ilay) (x icol ilay))
      in (srcs
            \<lparr>lay_source := fill3 ncol ngpt ok
               (\<lambda>icol ilay igpt. planck_lay cv (plk icol ilay) t_lev icol ilay igpt)
               (lay_source srcs),
             lev_source_inc := fill3 ncol ngpt ok
               (\<lambda>icol ilay igpt. planck_inc cv (plk icol ilay) t_lev icol ilay igpt)
               (lev_source_inc srcs),
             lev_source_dec := fill3 ncol ngpt ok
               (\<lambda>icol ilay igpt. planck_dec cv (plk icol ilay) t_lev icol ilay igpt)
               (lev_source_dec srcs)\<rparr>,
          props
            \<lparr>get_tau := fill3 ncol ngpt ok
               (\<lambda>icol ilay igpt. nw_tlw (regime_of idx_tropo ilay) (x icol ilay) igpt)
               (get_tau props)\<rparr>))"

text \<open>
  Modelled from the spec: \<open>lay2sfc_factor\<close> (declared in the header; body not among the
  sources). The surface source comes from the layer sources, the layer temperatures and
  \<open>tsfc\<close>.
\<close>

definition lay2sfc_factor ::
  "nn_conventions \<Rightarrow> TF Array_2 \<Rightarrow> TF Array_1 \<Rightarrow> Source_func_lw \<Rightarrow> int \<Rightarrow> int \<Rightarrow> int
     \<Rightarrow> Source_func_lw" where
  "lay2sfc_factor cv t_lay t_sfc srcs ncol nlay nband =
     srcs\<lparr>sfc_source :=
       fill2 ncol (snd (dims2 (sfc_source srcs)))
         (\<lambda>icol igpt. planck_sfc cv (lay_source srcs) t_lay t_sfc icol igpt)
         (sfc_source srcs)\<rparr>"

text \<open>
  Modelled from the spec: the check that every gas of the trained feature set, here the
  engine's \<open>gas_names\<close>, is in the store (part of \<open>gas_optics\<close>, whose body is not
  among the sources). The result is the first gas that is missing.
\<close>

definition missing_gas :: "Gas_optics_nn \<Rightarrow> Gas_concs \<Rightarrow> string option" where
  "missing_gas this gases = find (\<lambda>name. gases name = None) (gas_names this)"

text \<open>
  Modelled from the spec: the shortwave \<open>gas_optics\<close> (declared in the header; body not
  among the sources). A missing gas is a configuration error; inconsistent shapes of
  \<open>play\<close>, \<open>tlay\<close>, \<open>plev\<close> are a dimension error. Both are found before anything is
  written, and the call is then abandoned. Otherwise the tropopause index is taken from
  the fixed reference pressure, the layers are routed, optical depth and single-scatter
  albedo are written in place, and the top-of-atmosphere source is written from the
  stored effective solar source, the same for all columns. The result is the error, if
  any, and the caller's objects as the call leaves them. The engine is \<open>const\<close>.
\<close>

definition gas_optics_sw ::
  "nn_conventions \<Rightarrow> Gas_optics_nn \<Rightarrow> caller_state \<Rightarrow> error option \<times> caller_state" where
  "gas_optics_sw cv this w =
     (case missing_gas this (gas_desc w) of
        Some name \<Rightarrow> (Some (Configuration_error name), w)
      | None \<Rightarrow>
          let ncol = dim2 (play w) 1;
              nlay = dim2 (play w) 2;
              ngpt = get_ngpt (optical_props w);
              nband = get_nband (optical_props w)
          in if dims2 (tlay w) = (ncol, nlay) \<and> dims2 (plev w) = (ncol, nlay + 1) then
               let idx_tropo = find_tropo cv (press_ref_trop this) (play w);
                   lower_atm = (0 < idx_tropo);
                   upper_atm = (idx_tropo < nlay);
                   props = compute_tau_ssa_nn cv (ssa_network this) (tsw_network this)
                             ncol nlay ngpt nband idx_tropo (play w) (plev w) (tlay w)
                             (gas_desc w) (optical_props w) lower_atm upper_atm;
                   toa = fill2 ncol ngpt (\<lambda>icol igpt. elems1 (solar_source this) igpt)
                           (toa_src w)
               in (None, w\<lparr>optical_props := props, toa_src := toa\<rparr>)
             else (Some Dimension_error, w))"

text \<open>
  Modelled from the spec: the longwave \<open>gas_optics\<close> (declared in the header; body not
  among the sources). Errors as for the shortwave operation, with \<open>tlev\<close> and \<open>tsfc\<close>
  among the shapes. Otherwise optical depth and the layer and level sources are written
  in place, then the surface source. The engine is \<open>const\<close>.
\<close>

definition gas_optics_lw ::
  "nn_conventions \<Rightarrow> Gas_optics_nn \<Rightarrow> caller_state \<Rightarrow> error option \<times> caller_state" where
  "gas_optics_lw cv this w =
     (case missing_gas this (gas_desc w) of
        Some name \<Rightarrow> (Some (Configuration_error name), w)
      | None \<Rightarrow>
          let ncol = dim2 (play w) 1;
              nlay = dim2 (play w) 2;
              ngpt = get_ngpt (optical_props w);
              nband = get_nband (optical_props w)
          in if dims2 (tlay w) = (ncol, nlay) \<and> dims2 (plev w) = (ncol, nlay + 1)
                \<and> dims2 (tlev w) = (ncol, nlay + 1) \<and> dims1 (tsfc w) = ncol then
               let idx_tropo = find_tropo cv (press_ref_trop this) (play w);
                   lower_atm = (0 < idx_tropo);
                   upper_atm = (idx_tropo < nlay);
                   (srcs, props) =
                     compute_tau_sources_nn cv (tlw_network this) (plk_network this)
                       ncol nlay ngpt nband idx_tropo (play w) (plev w) (tlay w) (tlev w)
                       (gas_desc w) (sources w) (optical_props w) lower_atm upper_atm
               in (None, w\<lparr>optical_props := props,
                            sources := lay2sfc_factor cv (tlay w) (tsfc w) srcs ncol nlay nband\<rparr>)
             else (Some Dimension_error, w))"

text \<open>The inline member functions of the header.\<close>

definition source_is_internal :: "Gas_optics_nn \<Rightarrow> bool" where
  "source_is_internal this = False"

definition source_is_external :: "Gas_optics_nn \<Rightarrow> bool" where
  "source_is_external this = False"

definition get_press_ref_min :: "Gas_optics_nn \<Rightarrow> TF" where
  "get_press_ref_min this = 0"

definition get_press_ref_max :: "Gas_optics_nn \<Rightarrow> TF" where
  "get_press_ref_max this = 0"

definition get_temp_min :: "Gas_optics_nn \<Rightarrow> TF" where
  "get_temp_min this = 0"

definition get_temp_max :: "Gas_optics_nn \<Rightarrow> TF" where
  "get_temp_max this = 0"

text \<open>
  The public member functions of the header, all of them declared \<open>const\<close>, and what a
  call of each leaves behind: the engine as it was, and the caller's objects as the
  operation leaves them. The values the getters return play no part here.
\<close>

datatype public_call =
    Call_gas_optics_lw
  | Call_gas_optics_sw
  | Call_source_is_internal
  | Call_source_is_external
  | Call_get_press_ref_min
  | Call_get_press_ref_max
  | Call_get_temp_min
  | Call_get_temp_max
  | Call_get_tsi

definition invoke ::
  "nn_conventions \<Rightarrow> Gas_optics_nn \<times> caller_state \<Rightarrow> public_call
     \<Rightarrow> Gas_optics_nn \<times> caller_state" where
  "invoke cv obj c =
     (case c of
        Call_gas_optics_lw \<Rightarrow> (fst obj, snd (gas_optics_lw cv (fst obj) (snd obj)))
      | Call_gas_optics_sw \<Rightarrow> (fst obj, snd (gas_optics_sw cv (fst obj) (snd obj)))
      | _ \<Rightarrow> obj)"


section \<open>The driver's input stage: \<open>read_and_set_vmr\<close> (test\_rte\_rrtmgp.cpp)\<close>

text \<open>
  \<open>std::map<std::string,int>\<close> as an association list; \<open>size()\<close> counts the distinct
  keys and \<open>at\<close> throws \<open>std::out_of_range\<close> for a key that is not there.
\<close>

type_synonym std_map = "(string \<times> int) list"

definition map_size :: "std_map \<Rightarrow> int" where
  "map_size m = int (length (remdups (map fst m)))"

definition map_at :: "std_map \<Rightarrow> string \<Rightarrow> error + int" where
  "map_at m k = (case map_of m k of None \<Rightarrow> Inl Out_of_range | Some v \<Rightarrow> Inr v)"

text \<open>
  \<open>Netcdf_handle\<close> is declared in Netcdf\_interface.h, which is not among the sources
  here. The driver uses three of its operations; the handle carries what they answer:
  the dimensions of every variable of the file (a variable that is not in the table does
  not exist), and the two reading operations, which may throw.
\<close>

record Netcdf_handle =
  variables :: "string \<rightharpoonup> std_map"
  get_variable_scalar :: "string \<Rightarrow> error + TF"
  get_variable_counts :: "string \<Rightarrow> int list \<Rightarrow> error + TF list"

definition variable_exists :: "Netcdf_handle \<Rightarrow> string \<Rightarrow> bool" where
  "variable_exists nc name = (variables nc name \<noteq> None)"

definition get_variable_dimensions :: "Netcdf_handle \<Rightarrow> string \<Rightarrow> error + std_map" where
  "get_variable_dimensions nc name =
     (case variables nc name of
        None \<Rightarrow> Inl (Runtime_error ''NetCDF: Variable not found'')
      | Some ds \<Rightarrow> Inr ds)"

text \<open>
  What \<open>read_and_set_vmr\<close> can change: the store it is given by reference, and the
  messages printed by \<open>Status::print_warning\<close>.
\<close>

record driver_state =
  gas_concs :: Gas_concs
  warnings :: "string list"

definition illegal_dimensions :: "string \<Rightarrow> string" where
  "illegal_dimensions gas_name =
     ''Illegal dimensions of gas '' @ [CHR 0x22] @ gas_name @ [CHR 0x22] @ '' in input''"

definition not_available :: "string \<Rightarrow> string" where
  "not_available gas_name =
     ''Gas '' @ [CHR 0x22] @ gas_name @ [CHR 0x22] @ '' not available in input file.''"

definition read_and_set_vmr ::
  "string \<Rightarrow> int \<Rightarrow> int \<Rightarrow> Netcdf_handle \<Rightarrow> driver_state \<Rightarrow> error + driver_state" where
  "read_and_set_vmr gas_name n_col n_lay input_nc st =
     (let vmr_gas_name = ''vmr_'' @ gas_name in
      if variable_exists input_nc vmr_gas_name then
        bnd (get_variable_dimensions input_nc vmr_gas_name) (\<lambda>dims.
          let n_dims = map_size dims in
          if n_dims = 0 then
            bnd (get_variable_scalar input_nc vmr_gas_name) (\<lambda>v.
              Inr (st\<lparr>gas_concs := set_vmr (gas_concs st) gas_name (Vmr_scalar v)\<rparr>))
          else if n_dims = 1 then
            bnd (map_at dims ''lay'') (\<lambda>d_lay.
              if d_lay = n_lay then
                bnd (get_variable_counts input_nc vmr_gas_name [n_lay]) (\<lambda>v.
                  Inr (st\<lparr>gas_concs := set_vmr (gas_concs st) gas_name (Vmr_lay v n_lay)\<rparr>))
              else Inl (Runtime_error (illegal_dimensions gas_name)))
          else if n_dims = 2 then
            bnd (map_at dims ''lay'') (\<lambda>d_lay.
              if d_lay = n_lay then
                bnd (map_at dims ''col'') (\<lambda>d_col.
                  if d_col = n_col then
                    bnd (get_variable_counts input_nc vmr_gas_name [n_lay, n_col]) (\<lambda>v.
                      Inr (st\<lparr>gas_concs :=
                            set_vmr (gas_concs st) gas_name (Vmr_col_lay v n_col n_lay)\<rparr>))
                  else Inl (Runtime_error (illegal_dimensions gas_name)))
              else Inl (Runtime_error (illegal_dimensions gas_name)))
          else Inr st)
      else Inr (st\<lparr>warnings := warnings st @ [not_available gas_name]\<rparr>))"


section \<open>Concrete inputs\<close>

text \<open>
  One column, one layer, three spectral points in two bands: band 1 holds points 1 and
  2, band 2 holds point 3. The single-scatter albedo is zero everywhere.
\<close>

definition lims_w :: "int Array_2" where
  "lims_w = \<lparr> dims2 = (2, 2),
              elems2 = (\<lambda>idx. if idx = (1, 1) then 1 else if idx = (2, 1) then 2 else 3) \<rparr>"

definition ops_w :: Optical_props_arry where
  "ops_w = \<lparr> get_ncol = 1, get_nlay = 1, get_ngpt = 3, get_nband = 2,
             get_band_lims_gpoint = lims_w,
             get_tau = zeros3 1 1 3, get_ssa = zeros3 1 1 3, get_g = zeros3 1 1 3 \<rparr>"

text \<open>A surface albedo of 0.25 in band 1 and 0.5 in band 2, and its expansion.\<close>

definition alb_w :: "TF Array_2" where
  "alb_w = \<lparr> dims2 = (2, 1), elems2 = (\<lambda>idx. if idx = (1, 1) then 0.25 else 0.5) \<rparr>"

definition expanded_w :: expand_state where
  "expanded_w =
     \<lparr> arr_out = \<lparr> dims2 = (1, 3),
                   elems2 = (\<lambda>idx. 0)((1, 1) := 0.25, (1, 2) := 0.25, (1, 3) := 0.5) \<rparr>,
       assigned = [((1, 1), 0.25), ((1, 2), 0.25), ((1, 3), 0.5)] \<rparr>"

text \<open>
  An incident flux of 4 at every point, \<open>mu0 = 0.5\<close>, a kernel that hands the flux
  arrays back as it got them, and a flux object that keeps the three arrays it is given.
\<close>

definition inc_w :: "TF Array_2" where
  "inc_w = \<lparr> dims2 = (1, 3), elems2 = (\<lambda>idx. 4) \<rparr>"

definition mu0_w :: "TF Array_1" where
  "mu0_w = \<lparr> dims1 = 1, elems1 = (\<lambda>i. 0.5) \<rparr>"

definition solver_w :: sw_kernel where
  "solver_w a = (arg_flux_up a, arg_flux_dn a, arg_flux_dir a)"

text \<open>
  A kernel whose upward flux shows that it ran and what single-scatter albedo it was
  given: one plus that albedo, at every index.
\<close>

definition solver_mark :: sw_kernel where
  "solver_mark a =
     ((arg_flux_up a)\<lparr>elems3 := (\<lambda>idx. 1 + elems3 (arg_ssa a) idx)\<rparr>,
      arg_flux_dn a, arg_flux_dir a)"

definition reduce_w :: "(TF Array_3 \<times> TF Array_3 \<times> TF Array_3) reduce_method" where
  "reduce_w up dn dir ops top_at_1 fl = (up, dn, dir)"

definition fluxes_w :: "TF Array_3 \<times> TF Array_3 \<times> TF Array_3" where
  "fluxes_w = (zeros3 1 2 3, zeros3 1 2 3, zeros3 1 2 3)"

text \<open>
  A shortwave engine whose networks answer outside the physical range: an optical depth
  of -0.3 and a single-scatter albedo of 1.7 everywhere. A longwave engine trained on
  water vapour and ozone. A caller with one column and one layer whose store holds water
  vapour only.
\<close>

definition cv_w :: nn_conventions where
  "cv_w = \<lparr> features = (\<lambda>p_lay p_lev t_lay gases icol ilay. []),
            find_tropo = (\<lambda>p_ref p_lay. 1),
            planck_lay = (\<lambda>out t_lev icol ilay igpt. 0),
            planck_inc = (\<lambda>out t_lev icol ilay igpt. 0),
            planck_dec = (\<lambda>out t_lev icol ilay igpt. 0),
            planck_sfc = (\<lambda>lay t_lay t_sfc icol igpt. 0) \<rparr>"


definition lw_w :: Gas_optics_nn where
  "lw_w = Gas_optics_nn_lw [''h2o'', ''o3''] no_network no_network"

definition caller_w :: caller_state where
  "caller_w =
     \<lparr> play = zeros2 1 1, plev = zeros2 1 2, tlay = zeros2 1 1, tlev = zeros2 1 2,
       tsfc = zeros1 1, col_dry = zeros2 1 1,
       gas_desc = [''h2o'' \<mapsto> Vmr_scalar 0.01],
       optical_props = ops_w,
       sources = \<lparr> lay_source = zeros3 1 1 3, lev_source_inc = zeros3 1 1 3,
                   lev_source_dec = zeros3 1 1 3, sfc_source = zeros2 1 3 \<rparr>,
       toa_src = zeros2 1 3 \<rparr>"

text \<open>
  An input file whose variable \<open>vmr_h2o\<close> has three dimensions, none of the size a
  driver reading 2 columns and 3 layers expects, and a driver that has read nothing yet.
\<close>

definition nc_rank3 :: Netcdf_handle where
  "nc_rank3 =
     \<lparr> variables = [''vmr_h2o'' \<mapsto> [(''lay'', 4), (''col'', 5), (''time'', 1)]],
       get_variable_scalar = (\<lambda>name. Inr 0),
       get_variable_counts = (\<lambda>name counts. Inr []) \<rparr>"

definition driver_empty :: driver_state where
  "driver_empty = \<lparr> gas_concs = Map.empty, warnings = [] \<rparr>"


section \<open>Facts about errors and loops\<close>

lemma bnd_eq_Inr: "(bnd m f = Inr y) = (\<exists>x. m = Inr x \<and> f x = Inr y)"
  by (cases m) (simp_all add: bnd_def)

lemma get2_Inr: "get2 a idx = Inr v \<Longrightarrow> v = elems2 a idx"
  by (simp add: get2_def split: if_splits)

lemma for_loop_run: "for_loop i hi body s = run body [i..hi] s"
proof (induction i hi body s rule: for_loop.induct)
  case (1 i hi body s)
  show ?case
  proof (cases "i \<le> hi")
    case True
    then have u: "[i..hi] = i # [i + 1..hi]"
      by (simp add: upto_rec1)
    show ?thesis
      using 1 True by (subst for_loop.simps) (simp add: u split: sum.splits)
  next
    case False
    then show ?thesis
      by (subst for_loop.simps) simp
  qed
qed

text \<open>A property kept by every round of the body is kept by the loop.\<close>

lemma run_inv:
  assumes "run body xs s = Inr s'" and "I s"
    and "\<And>x t t'. x \<in> set xs \<Longrightarrow> I t \<Longrightarrow> body x t = Inr t' \<Longrightarrow> I t'"
  shows "I s'"
  using assms
proof (induction xs arbitrary: s)
  case Nil
  then show ?case by simp
next
  case (Cons x xs)
  from Cons.prems(1) obtain t where t: "body x s = Inr t" and r: "run body xs t = Inr s'"
    by (auto split: sum.splits)
  have "I t" using Cons.prems(2) Cons.prems(3) [of x s t] t by simp
  from r this show ?case
  proof (rule Cons.IH)
    fix y u u'
    assume "y \<in> set xs" and "I u" and "body y u = Inr u'"
    then show "I u'"
      using Cons.prems(3) [of y u u'] by simp
  qed
qed

text \<open>If every round appends its own entries to a log, the loop appends all of them in order.\<close>

lemma run_log:
  assumes "run body xs s = Inr s'"
    and "\<And>x t t'. x \<in> set xs \<Longrightarrow> body x t = Inr t' \<Longrightarrow> lg t' = lg t @ W x"
  shows "lg s' = lg s @ concat (map W xs)"
  using assms
proof (induction xs arbitrary: s)
  case Nil
  then show ?case by simp
next
  case (Cons x xs)
  from Cons.prems(1) obtain t where t: "body x s = Inr t" and r: "run body xs t = Inr s'"
    by (auto split: sum.splits)
  have "lg t = lg s @ W x" using Cons.prems(2) [of x s t] t by simp
  moreover from r have "lg s' = lg t @ concat (map W xs)"
  proof (rule Cons.IH)
    fix y u u'
    assume "y \<in> set xs" and "body y u = Inr u'"
    then show "lg u' = lg u @ W y"
      using Cons.prems(2) [of y u u'] by simp
  qed
  ultimately show ?case by simp
qed

text \<open>A loop whose body returns in every state it can meet returns.\<close>

lemma run_returns:
  assumes "I s"
    and "\<And>x t. x \<in> set xs \<Longrightarrow> I t \<Longrightarrow> \<exists>t'. body x t = Inr t' \<and> I t'"
  shows "\<exists>s'. run body xs s = Inr s' \<and> I s'"
  using assms
proof (induction xs arbitrary: s)
  case Nil
  then show ?case by simp
next
  case (Cons x xs)
  from Cons.prems(2) [of x s] Cons.prems(1)
  obtain t where t: "body x s = Inr t" and "I t"
    by auto
  from \<open>I t\<close> have "\<exists>s'. run body xs t = Inr s' \<and> I s'"
  proof (rule Cons.IH)
    fix y u
    assume "y \<in> set xs" and "I u"
    then show "\<exists>u'. body y u = Inr u' \<and> I u'"
      using Cons.prems(2) [of y u] by simp
  qed
  then show ?case
    using t by simp
qed


section \<open>\<open>expand_and_transpose\<close> broadcasts band values\<close>

subsection \<open>The assignments made\<close>

lemma expand_gpt_log:
  assumes "expand_gpt arr_in b c g st = Inr st'"
  shows "assigned st' = assigned st @ [((c, g), elems2 arr_in (b, c))]"
  using assms
  by (auto simp add: expand_gpt_def assign_def bnd_eq_Inr dest: get2_Inr)

lemma expand_col_log:
  assumes "expand_col limits arr_in b c st = Inr st'"
  shows "assigned st' = assigned st @ col_writes limits arr_in b c"
proof -
  from assms obtain lo hi where lo: "get2 limits (1, b) = Inr lo"
    and hi: "get2 limits (2, b) = Inr hi"
    and r: "run (expand_gpt arr_in b c) [lo..hi] st = Inr st'"
    by (auto simp add: expand_col_def bnd_eq_Inr for_loop_run)
  have "assigned st' =
          assigned st @ concat (map (\<lambda>g. [((c, g), elems2 arr_in (b, c))]) [lo..hi])"
    using r by (rule run_log) (rule expand_gpt_log)
  moreover have "lo = elems2 limits (1, b)" and "hi = elems2 limits (2, b)"
    using lo hi by (auto dest: get2_Inr)
  ultimately show ?thesis
    by (simp add: col_writes_def concat_map_singleton)
qed

lemma expand_band_log:
  assumes "expand_band limits arr_in ncol b st = Inr st'"
  shows "assigned st' = assigned st @ band_writes limits arr_in ncol b"
proof -
  from assms have r: "run (expand_col limits arr_in b) [1..ncol] st = Inr st'"
    by (simp add: expand_band_def for_loop_run)
  show ?thesis
    unfolding band_writes_def using r by (rule run_log) (rule expand_col_log)
qed

lemma expand_and_transpose_log:
  assumes "expand_and_transpose ops arr_in arr_out0 = Inr st"
  shows "assigned st =
           concat (map (band_writes (get_band_lims_gpoint ops) arr_in (dim2 arr_in 2))
             [1..get_nband ops])"
proof -
  let ?s0 = "\<lparr>arr_out = arr_out0, assigned = []\<rparr>"
  from assms
  have r: "run (expand_band (get_band_lims_gpoint ops) arr_in (dim2 arr_in 2))
             [1..get_nband ops] ?s0 = Inr st"
    by (simp add: expand_and_transpose_def for_loop_run)
  have "assigned st = assigned ?s0 @
          concat (map (band_writes (get_band_lims_gpoint ops) arr_in (dim2 arr_in 2))
            [1..get_nband ops])"
    using r by (rule run_log) (rule expand_band_log)
  then show ?thesis by simp
qed

lemma set_band_writes:
  "(w \<in> set (band_writes limits arr_in ncol b)) =
     (\<exists>c g. w = ((c, g), elems2 arr_in (b, c)) \<and> 1 \<le> c \<and> c \<le> ncol \<and> in_band limits b g)"
  by (force simp add: band_writes_def col_writes_def in_band_def image_iff)

lemma expand_and_transpose_assigned:
  assumes "expand_and_transpose ops arr_in arr_out0 = Inr st"
  shows "(w \<in> set (assigned st)) =
     (\<exists>b c g. w = ((c, g), elems2 arr_in (b, c)) \<and> 1 \<le> b \<and> b \<le> get_nband ops \<and>
        1 \<le> c \<and> c \<le> dim2 arr_in 2 \<and> in_band (get_band_lims_gpoint ops) b g)"
  unfolding expand_and_transpose_log [OF assms]
  by (auto simp add: set_band_writes)

subsection \<open>The array is the old array with the assignments replayed\<close>

lemma replay_snoc: "replay (ws @ [w]) f = (replay ws f)(fst w := snd w)"
  by (simp add: replay_def)

lemma replay_same:
  assumes "(p, v) \<in> set ws" and "\<And>v'. (p, v') \<in> set ws \<Longrightarrow> v' = v"
  shows "replay ws f p = v"
  using assms
proof (induction ws rule: rev_induct)
  case Nil
  then show ?case by simp
next
  case (snoc w ws)
  show ?case
  proof (cases "fst w = p")
    case True
    then have "(p, snd w) \<in> set (ws @ [w])"
      by (cases w) simp
    then have "snd w = v"
      by (rule snoc.prems(2))
    with True show ?thesis
      by (simp add: replay_snoc)
  next
    case False
    with snoc.prems(1) have m: "(p, v) \<in> set ws"
      by auto
    have "replay ws f p = v"
      using m snoc.prems(2) by (intro snoc.IH) auto
    with False show ?thesis
      by (simp add: replay_snoc)
  qed
qed

lemma assign_tracked:
  assumes "assign c g v st = Inr st'" and "tracked e0 st"
  shows "tracked e0 st'"
  using assms
  by (auto simp add: assign_def set2_def bnd_eq_Inr tracked_def replay_snoc split: if_splits)

lemma expand_gpt_tracked:
  assumes "tracked e0 st" and "expand_gpt arr_in b c g st = Inr st'"
  shows "tracked e0 st'"
  using assms by (auto simp add: expand_gpt_def bnd_eq_Inr intro: assign_tracked)

lemma expand_col_tracked:
  assumes "tracked e0 st" and "expand_col limits arr_in b c st = Inr st'"
  shows "tracked e0 st'"
proof -
  from assms(2) obtain lo hi where "run (expand_gpt arr_in b c) [lo..hi] st = Inr st'"
    by (auto simp add: expand_col_def bnd_eq_Inr for_loop_run)
  then show ?thesis
    using assms(1) by (rule run_inv) (rule expand_gpt_tracked)
qed

lemma expand_band_tracked:
  assumes "tracked e0 st" and "expand_band limits arr_in ncol b st = Inr st'"
  shows "tracked e0 st'"
proof -
  from assms(2) have "run (expand_col limits arr_in b) [1..ncol] st = Inr st'"
    by (simp add: expand_band_def for_loop_run)
  then show ?thesis
    using assms(1) by (rule run_inv) (rule expand_col_tracked)
qed

lemma expand_and_transpose_tracked:
  assumes "expand_and_transpose ops arr_in arr_out0 = Inr st"
  shows "elems2 (arr_out st) = replay (assigned st) (elems2 arr_out0)"
proof -
  let ?s0 = "\<lparr>arr_out = arr_out0, assigned = []\<rparr>"
  from assms
  have "run (expand_band (get_band_lims_gpoint ops) arr_in (dim2 arr_in 2))
          [1..get_nband ops] ?s0 = Inr st"
    by (simp add: expand_and_transpose_def for_loop_run)
  moreover have "tracked (elems2 arr_out0) ?s0"
    by (simp add: tracked_def replay_def)
  ultimately have "tracked (elems2 arr_out0) st"
    by (rule run_inv) (rule expand_band_tracked)
  then show ?thesis
    by (simp add: tracked_def)
qed

subsection \<open>The call returns when every index lies inside its array\<close>

lemma expand_gpt_returns:
  assumes "same_dims a st" and "inside2 arr_in (b, c)" and "inside2 a (c, g)"
  shows "\<exists>st'. expand_gpt arr_in b c g st = Inr st' \<and> same_dims a st'"
  using assms
  by (simp add: expand_gpt_def assign_def get2_def set2_def bnd_def same_dims_def inside2_def)

lemma expand_col_returns:
  assumes "same_dims a st" and "inside2 limits (1, b)" and "inside2 limits (2, b)"
    and "inside2 arr_in (b, c)" and "1 \<le> c" and "c \<le> fst (dims2 a)"
    and "1 \<le> elems2 limits (1, b)" and "elems2 limits (2, b) \<le> snd (dims2 a)"
  shows "\<exists>st'. expand_col limits arr_in b c st = Inr st' \<and> same_dims a st'"
proof -
  have "\<exists>st'. run (expand_gpt arr_in b c) [elems2 limits (1, b)..elems2 limits (2, b)] st = Inr st'
          \<and> same_dims a st'"
    using assms(1)
  proof (rule run_returns)
    fix g t
    assume "g \<in> set [elems2 limits (1, b)..elems2 limits (2, b)]" and "same_dims a t"
    then show "\<exists>t'. expand_gpt arr_in b c g t = Inr t' \<and> same_dims a t'"
      using assms(4-8) by (intro expand_gpt_returns) (simp_all add: inside2_def)
  qed
  then show ?thesis
    using assms(2,3) by (simp add: expand_col_def get2_def bnd_def for_loop_run)
qed

lemma expand_and_transpose_returns:
  assumes "dims2 (get_band_lims_gpoint ops) = (2, get_nband ops)"
    and "get_nband ops \<le> fst (dims2 arr_in)"
    and "snd (dims2 arr_in) \<le> fst (dims2 arr_out0)"
    and "\<And>b. 1 \<le> b \<Longrightarrow> b \<le> get_nband ops \<Longrightarrow>
           1 \<le> elems2 (get_band_lims_gpoint ops) (1, b) \<and>
           elems2 (get_band_lims_gpoint ops) (2, b) \<le> snd (dims2 arr_out0)"
  shows "\<exists>st. expand_and_transpose ops arr_in arr_out0 = Inr st"
proof -
  let ?limits = "get_band_lims_gpoint ops"
  let ?ncol = "dim2 arr_in 2"
  let ?s0 = "\<lparr>arr_out = arr_out0, assigned = []\<rparr>"
  have ncol: "?ncol = snd (dims2 arr_in)"
    by (simp add: dim2_def)
  have band: "\<exists>t'. expand_band ?limits arr_in ?ncol b t = Inr t' \<and> same_dims arr_out0 t'"
    if b: "b \<in> set [1..get_nband ops]" and t: "same_dims arr_out0 t" for b t
    unfolding expand_band_def for_loop_run
    using t
  proof (rule run_returns)
    fix c u
    assume c: "c \<in> set [1..?ncol]" and u: "same_dims arr_out0 u"
    from u show "\<exists>u'. expand_col ?limits arr_in b c u = Inr u' \<and> same_dims arr_out0 u'"
    proof (rule expand_col_returns)
      show "inside2 ?limits (1, b)" and "inside2 ?limits (2, b)"
        using b assms(1) by (simp_all add: inside2_def)
      show "inside2 arr_in (b, c)"
        using b c assms(2) ncol by (simp add: inside2_def)
      show "1 \<le> c" and "c \<le> fst (dims2 arr_out0)"
        using c assms(3) ncol by simp_all
      show "1 \<le> elems2 ?limits (1, b)" and "elems2 ?limits (2, b) \<le> snd (dims2 arr_out0)"
        using b assms(4) [of b] by simp_all
    qed
  qed
  have "same_dims arr_out0 ?s0"
    by (simp add: same_dims_def)
  then have "\<exists>st. run (expand_band ?limits arr_in ?ncol) [1..get_nband ops] ?s0 = Inr st
               \<and> same_dims arr_out0 st"
    by (rule run_returns) (rule band)
  then show ?thesis
    by (auto simp add: expand_and_transpose_def for_loop_run)
qed

subsection \<open>The broadcast\<close>

text \<open>
  C2. For every band \<open>iband\<close> of \<open>1..nband\<close>, every column \<open>icol\<close> of \<open>1..ncol\<close> and
  every spectral point \<open>igpt\<close> between the band's two limits, a call of
  \<open>expand_and_transpose\<close> that runs through assigns the band's value
  \<open>arr_in(iband, icol)\<close> to \<open>arr_out(icol, igpt)\<close>. It is a pure broadcast: every
  assignment it makes stores the value of some band, unchanged, at a point of that band.
  The value is still there when the call returns unless another band's limits hold the
  same point; with limits that do not overlap, \<open>arr_out(icol, igpt)\<close> ends as
  \<open>arr_in(iband, icol)\<close>.
\<close>

theorem expand_and_transpose_broadcast:
  assumes "expand_and_transpose ops arr_in arr_out0 = Inr st"
    and "1 \<le> iband" and "iband \<le> get_nband ops"
    and "1 \<le> icol" and "icol \<le> dim2 arr_in 2"
    and "in_band (get_band_lims_gpoint ops) iband igpt"
  shows "((icol, igpt), elems2 arr_in (iband, icol)) \<in> set (assigned st) \<and>
         (\<forall>w \<in> set (assigned st). \<exists>b. 1 \<le> b \<and> b \<le> get_nband ops \<and>
              in_band (get_band_lims_gpoint ops) b (snd (fst w)) \<and>
              snd w = elems2 arr_in (b, fst (fst w))) \<and>
         ((\<forall>b. 1 \<le> b \<and> b \<le> get_nband ops \<and> in_band (get_band_lims_gpoint ops) b igpt
              \<longrightarrow> b = iband)
          \<longrightarrow> elems2 (arr_out st) (icol, igpt) = elems2 arr_in (iband, icol))"
proof (intro conjI ballI impI)
  show written: "((icol, igpt), elems2 arr_in (iband, icol)) \<in> set (assigned st)"
    unfolding expand_and_transpose_assigned [OF assms(1)]
    using assms(2-6) by blast
  {
    fix w
    assume "w \<in> set (assigned st)"
    then show "\<exists>b. 1 \<le> b \<and> b \<le> get_nband ops \<and>
                 in_band (get_band_lims_gpoint ops) b (snd (fst w)) \<and>
                 snd w = elems2 arr_in (b, fst (fst w))"
      unfolding expand_and_transpose_assigned [OF assms(1)] by auto
  }
  {
    assume only: "\<forall>b. 1 \<le> b \<and> b \<le> get_nband ops \<and>
                    in_band (get_band_lims_gpoint ops) b igpt \<longrightarrow> b = iband"
    have "replay (assigned st) (elems2 arr_out0) (icol, igpt) = elems2 arr_in (iband, icol)"
    proof (rule replay_same [OF written])
      fix v'
      assume "((icol, igpt), v') \<in> set (assigned st)"
      then obtain b where "v' = elems2 arr_in (b, icol)" and "1 \<le> b" and "b \<le> get_nband ops"
        and "in_band (get_band_lims_gpoint ops) b igpt"
        unfolding expand_and_transpose_assigned [OF assms(1)] by auto
      with only show "v' = elems2 arr_in (iband, icol)"
        by auto
    qed
    then show "elems2 (arr_out st) (icol, igpt) = elems2 arr_in (iband, icol)"
      by (simp add: expand_and_transpose_tracked [OF assms(1)])
  }
qed

lemma expand_and_transpose_w:
  "expand_and_transpose ops_w alb_w (zeros2 1 3) = Inr expanded_w"
  by (simp add: expand_and_transpose_def expand_band_def expand_col_def expand_gpt_def
      assign_def get2_def set2_def inside2_def dim2_def bnd_def for_loop.simps
      ops_w_def lims_w_def alb_w_def zeros2_def expanded_w_def)

theorem expand_and_transpose_broadcast_witness:
  "expand_and_transpose ops_w alb_w (zeros2 1 3) = Inr expanded_w \<and>
   ((1, 2), 0.25) \<in> set (assigned expanded_w) \<and>
   elems2 (arr_out expanded_w) (1, 2) = 0.25 \<and>
   elems2 (arr_out expanded_w) (1, 3) = 0.5"
proof -
  have b1: "in_band (get_band_lims_gpoint ops_w) 1 2"
    and b2: "in_band (get_band_lims_gpoint ops_w) 2 3"
    by (simp_all add: in_band_def ops_w_def lims_w_def)
  have only1: "\<forall>b. 1 \<le> b \<and> b \<le> get_nband ops_w \<and> in_band (get_band_lims_gpoint ops_w) b 2
                 \<longrightarrow> b = 1"
    and only2: "\<forall>b. 1 \<le> b \<and> b \<le> get_nband ops_w \<and> in_band (get_band_lims_gpoint ops_w) b 3
                 \<longrightarrow> b = 2"
    by (auto simp add: in_band_def ops_w_def lims_w_def split: if_splits)
  have n: "(1::int) \<le> get_nband ops_w" "(2::int) \<le> get_nband ops_w" "(1::int) \<le> dim2 alb_w 2"
    by (simp_all add: ops_w_def alb_w_def dim2_def)
  note t1 = expand_and_transpose_broadcast [OF expand_and_transpose_w _ n(1) _ n(3) b1]
  note t2 = expand_and_transpose_broadcast [OF expand_and_transpose_w _ n(2) _ n(3) b2]
  from t1 only1 have "((1, 2), elems2 alb_w (1, 1)) \<in> set (assigned expanded_w)"
    and "elems2 (arr_out expanded_w) (1, 2) = elems2 alb_w (1, 1)"
    by simp_all
  moreover from t2 only2 have "elems2 (arr_out expanded_w) (1, 3) = elems2 alb_w (2, 1)"
    by simp
  ultimately show ?thesis
    using expand_and_transpose_w by (simp add: alb_w_def)
qed


section \<open>The order of the steps of \<open>rte_sw\<close>\<close>

text \<open>
  A call of \<open>rte_sw\<close> that runs through has expanded both albedos, launched the two
  boundary kernels, then the two-stream kernel on the arrays these left, then \<open>reduce\<close>
  on what the kernel returned.
\<close>

lemma rte_sw_steps:
  assumes "rte_sw solver fluxes_reduce ops top_at_1 mu0 inc_flux sfc_alb_dir sfc_alb_dif fluxes0
             = Inr s"
  obtains e_dir e_dif up dn dir where
    "expand_and_transpose ops sfc_alb_dir (zeros2 (get_ncol ops) (get_ngpt ops)) = Inr e_dir"
    and "expand_and_transpose ops sfc_alb_dif (zeros2 (get_ncol ops) (get_ngpt ops)) = Inr e_dif"
    and "solver (solver_input ops top_at_1 mu0 inc_flux (arr_out e_dir) (arr_out e_dif))
           = (up, dn, dir)"
    and "fluxes s = fluxes_reduce up dn dir ops top_at_1 fluxes0"
    and "calls s = [Expand_and_transpose, Expand_and_transpose, Apply_BC_factor, Apply_BC_0,
                    Sw_solver_2stream, Reduce]"
proof -
  let ?ncol = "get_ncol ops" and ?nlay = "get_nlay ops" and ?ngpt = "get_ngpt ops"
  from assms obtain e_dir e_dif where
    e1: "expand_and_transpose ops sfc_alb_dir (zeros2 ?ncol ?ngpt) = Inr e_dir"
    and e2: "expand_and_transpose ops sfc_alb_dif (zeros2 ?ncol ?ngpt) = Inr e_dif"
    by (auto simp add: rte_sw_def Let_def bnd_eq_Inr call_expand_dir_def call_expand_dif_def
        called_def)
  obtain up dn dir where
    k: "solver (solver_input ops top_at_1 mu0 inc_flux (arr_out e_dir) (arr_out e_dif))
          = (up, dn, dir)"
    by (cases "solver (solver_input ops top_at_1 mu0 inc_flux (arr_out e_dir) (arr_out e_dif))")
  from assms e1 e2 k
  have "fluxes s = fluxes_reduce up dn dir ops top_at_1 fluxes0"
    and "calls s = [Expand_and_transpose, Expand_and_transpose, Apply_BC_factor, Apply_BC_0,
                    Sw_solver_2stream, Reduce]"
    by (auto simp add: rte_sw_def Let_def bnd_def call_expand_dir_def call_expand_dif_def
        called_def launch_apply_BC_factor_def launch_apply_BC_0_def
        launch_sw_solver_2stream_def solver_args_def call_reduce_def
        solver_input_def toa_flux_dn_def toa_flux_dir_def)
  with e1 e2 k show ?thesis
    by (rule that)
qed

lemma toa_flux_dir_top:
  assumes "1 \<le> icol" and "icol \<le> get_ncol ops" and "1 \<le> igpt" and "igpt \<le> get_ngpt ops"
  shows "elems3 (toa_flux_dir ops top_at_1 inc_flux mu0)
           (icol, top_level top_at_1 (get_nlay ops), igpt)
         = elems2 inc_flux (icol, igpt) * elems1 mu0 icol"
  using assms by (simp add: toa_flux_dir_def apply_BC_factor_def)

lemma toa_flux_dn_top:
  assumes "1 \<le> icol" and "icol \<le> get_ncol ops" and "1 \<le> igpt" and "igpt \<le> get_ngpt ops"
  shows "elems3 (toa_flux_dn ops top_at_1) (icol, top_level top_at_1 (get_nlay ops), igpt) = 0"
  using assms by (simp add: toa_flux_dn_def apply_BC_0_def)

lemma rte_sw_returns:
  assumes "expand_and_transpose ops sfc_alb_dir (zeros2 (get_ncol ops) (get_ngpt ops))
             = Inr e_dir"
    and "expand_and_transpose ops sfc_alb_dif (zeros2 (get_ncol ops) (get_ngpt ops))
             = Inr e_dif"
  shows "\<exists>s. rte_sw solver fluxes_reduce ops top_at_1 mu0 inc_flux sfc_alb_dir sfc_alb_dif
               fluxes0 = Inr s"
  using assms
  by (simp add: rte_sw_def Let_def call_expand_dir_def call_expand_dif_def called_def bnd_def)

lemma rte_sw_returns_w:
  "\<exists>s. rte_sw solver_w reduce_w ops_w top_at_1 mu0_w inc_w alb_w alb_w fluxes_w = Inr s"
proof -
  have e: "expand_and_transpose ops_w alb_w (zeros2 (get_ncol ops_w) (get_ngpt ops_w))
             = Inr expanded_w"
    using expand_and_transpose_w by (simp add: ops_w_def)
  from e e show ?thesis
    by (rule rte_sw_returns)
qed

text \<open>
  C3. In every call of \<open>rte_sw\<close> that runs through, the calls are, in this order: the
  expansion of the direct and of the diffuse surface albedo to spectral points, the two
  boundary kernels, the two-stream kernel, and the flux reduction. The two-stream kernel
  is launched with the expanded albedos and with the flux arrays as the boundary kernels
  left them: at the top level the direct-beam flux of column \<open>icol\<close> and point \<open>igpt\<close> is
  \<open>inc_flux(icol, igpt) * mu0(icol)\<close> and the downward diffuse flux is zero. \<open>reduce\<close>
  works on the three arrays the kernel returned.
\<close>

theorem rte_sw_order:
  assumes "rte_sw solver fluxes_reduce ops top_at_1 mu0 inc_flux sfc_alb_dir sfc_alb_dif fluxes0
             = Inr s"
  shows "calls s = [Expand_and_transpose, Expand_and_transpose, Apply_BC_factor, Apply_BC_0,
                    Sw_solver_2stream, Reduce] \<and>
         (\<exists>e_dir e_dif up dn dir.
            expand_and_transpose ops sfc_alb_dir (zeros2 (get_ncol ops) (get_ngpt ops))
              = Inr e_dir \<and>
            expand_and_transpose ops sfc_alb_dif (zeros2 (get_ncol ops) (get_ngpt ops))
              = Inr e_dif \<and>
            solver (solver_input ops top_at_1 mu0 inc_flux (arr_out e_dir) (arr_out e_dif))
              = (up, dn, dir) \<and>
            fluxes s = fluxes_reduce up dn dir ops top_at_1 fluxes0) \<and>
         (\<forall>icol igpt. 1 \<le> icol \<and> icol \<le> get_ncol ops \<and> 1 \<le> igpt \<and> igpt \<le> get_ngpt ops \<longrightarrow>
            elems3 (toa_flux_dir ops top_at_1 inc_flux mu0)
              (icol, top_level top_at_1 (get_nlay ops), igpt)
              = elems2 inc_flux (icol, igpt) * elems1 mu0 icol \<and>
            elems3 (toa_flux_dn ops top_at_1)
              (icol, top_level top_at_1 (get_nlay ops), igpt) = 0)"
proof (intro conjI)
  from assms show "calls s = [Expand_and_transpose, Expand_and_transpose, Apply_BC_factor,
                     Apply_BC_0, Sw_solver_2stream, Reduce]"
    by (rule rte_sw_steps)
  from assms show "\<exists>e_dir e_dif up dn dir.
            expand_and_transpose ops sfc_alb_dir (zeros2 (get_ncol ops) (get_ngpt ops))
              = Inr e_dir \<and>
            expand_and_transpose ops sfc_alb_dif (zeros2 (get_ncol ops) (get_ngpt ops))
              = Inr e_dif \<and>
            solver (solver_input ops top_at_1 mu0 inc_flux (arr_out e_dir) (arr_out e_dif))
              = (up, dn, dir) \<and>
            fluxes s = fluxes_reduce up dn dir ops top_at_1 fluxes0"
    by (rule rte_sw_steps) blast
  show "\<forall>icol igpt. 1 \<le> icol \<and> icol \<le> get_ncol ops \<and> 1 \<le> igpt \<and> igpt \<le> get_ngpt ops \<longrightarrow>
            elems3 (toa_flux_dir ops top_at_1 inc_flux mu0)
              (icol, top_level top_at_1 (get_nlay ops), igpt)
              = elems2 inc_flux (icol, igpt) * elems1 mu0 icol \<and>
            elems3 (toa_flux_dn ops top_at_1)
              (icol, top_level top_at_1 (get_nlay ops), igpt) = 0"
    by (simp add: toa_flux_dir_top toa_flux_dn_top)
qed

theorem rte_sw_order_witness:
  "\<exists>s. rte_sw solver_w reduce_w ops_w 1 mu0_w inc_w alb_w alb_w fluxes_w = Inr s \<and>
       calls s = [Expand_and_transpose, Expand_and_transpose, Apply_BC_factor, Apply_BC_0,
                  Sw_solver_2stream, Reduce] \<and>
       elems3 (toa_flux_dir ops_w 1 inc_w mu0_w) (1, 1, 2) = 2 \<and>
       elems3 (toa_flux_dn ops_w 1) (1, 1, 2) = 0"
proof -
  from rte_sw_returns_w [of 1] obtain s
    where s: "rte_sw solver_w reduce_w ops_w 1 mu0_w inc_w alb_w alb_w fluxes_w = Inr s" ..
  note t = rte_sw_order [OF s]
  from t have c: "calls s = [Expand_and_transpose, Expand_and_transpose, Apply_BC_factor,
                    Apply_BC_0, Sw_solver_2stream, Reduce]"
    by (rule conjunct1)
  from t have "\<forall>icol igpt. 1 \<le> icol \<and> icol \<le> get_ncol ops_w \<and> 1 \<le> igpt \<and> igpt \<le> get_ngpt ops_w \<longrightarrow>
            elems3 (toa_flux_dir ops_w 1 inc_w mu0_w)
              (icol, top_level 1 (get_nlay ops_w), igpt)
              = elems2 inc_w (icol, igpt) * elems1 mu0_w icol \<and>
            elems3 (toa_flux_dn ops_w 1)
              (icol, top_level 1 (get_nlay ops_w), igpt) = 0"
    by blast
  then have "1 \<le> (1::int) \<and> 1 \<le> get_ncol ops_w \<and> 1 \<le> (2::int) \<and> 2 \<le> get_ngpt ops_w \<longrightarrow>
            elems3 (toa_flux_dir ops_w 1 inc_w mu0_w) (1, top_level 1 (get_nlay ops_w), 2)
              = elems2 inc_w (1, 2) * elems1 mu0_w 1 \<and>
            elems3 (toa_flux_dn ops_w 1) (1, top_level 1 (get_nlay ops_w), 2) = 0"
    by blast
  then have "elems3 (toa_flux_dir ops_w 1 inc_w mu0_w) (1, 1, 2) = 2"
    and "elems3 (toa_flux_dn ops_w 1) (1, 1, 2) = 0"
    by (simp_all add: ops_w_def top_level_def inc_w_def mu0_w_def)
  with s c show ?thesis
    by blast
qed

text \<open>
  What the local flux arrays hold when \<open>rte_sw\<close> returns: the three arrays the
  two-stream kernel gave back for the launcher's arguments.
\<close>

lemma rte_sw_flux_arrays:
  assumes "rte_sw solver fluxes_reduce ops top_at_1 mu0 inc_flux sfc_alb_dir sfc_alb_dif fluxes0
             = Inr s"
  obtains e_dir e_dif where
    "expand_and_transpose ops sfc_alb_dir (zeros2 (get_ncol ops) (get_ngpt ops)) = Inr e_dir"
    and "expand_and_transpose ops sfc_alb_dif (zeros2 (get_ncol ops) (get_ngpt ops)) = Inr e_dif"
    and "(gpt_flux_up s, gpt_flux_dn s, gpt_flux_dir s)
           = solver (solver_input ops top_at_1 mu0 inc_flux (arr_out e_dir) (arr_out e_dif))"
    and "fluxes s = fluxes_reduce (gpt_flux_up s) (gpt_flux_dn s) (gpt_flux_dir s)
                      ops top_at_1 fluxes0"
proof -
  let ?ncol = "get_ncol ops" and ?ngpt = "get_ngpt ops"
  from assms obtain e_dir e_dif where
    e1: "expand_and_transpose ops sfc_alb_dir (zeros2 ?ncol ?ngpt) = Inr e_dir"
    and e2: "expand_and_transpose ops sfc_alb_dif (zeros2 ?ncol ?ngpt) = Inr e_dif"
    by (auto simp add: rte_sw_def Let_def bnd_eq_Inr call_expand_dir_def call_expand_dif_def
        called_def)
  obtain up dn dir where
    k: "solver (solver_input ops top_at_1 mu0 inc_flux (arr_out e_dir) (arr_out e_dif))
          = (up, dn, dir)"
    by (cases "solver (solver_input ops top_at_1 mu0 inc_flux (arr_out e_dir) (arr_out e_dif))")
  from assms e1 e2 k
  have "gpt_flux_up s = up" and "gpt_flux_dn s = dn" and "gpt_flux_dir s = dir"
    and "fluxes s = fluxes_reduce up dn dir ops top_at_1 fluxes0"
    by (auto simp add: rte_sw_def Let_def bnd_def call_expand_dir_def call_expand_dif_def
        called_def launch_apply_BC_factor_def launch_apply_BC_0_def
        launch_sw_solver_2stream_def solver_args_def call_reduce_def
        solver_input_def toa_flux_dn_def toa_flux_dir_def)
  with k have "(gpt_flux_up s, gpt_flux_dn s, gpt_flux_dir s)
           = solver (solver_input ops top_at_1 mu0 inc_flux (arr_out e_dir) (arr_out e_dif))"
    and "fluxes s = fluxes_reduce (gpt_flux_up s) (gpt_flux_dn s) (gpt_flux_dir s)
                      ops top_at_1 fluxes0"
    by simp_all
  with e1 e2 show ?thesis
    by (rule that)
qed

text \<open>
  C5. Whatever the optical properties are, a single-scatter albedo of zero included, a
  call of \<open>rte_sw\<close> that runs through invokes the two-stream kernel: the flux arrays it
  ends with are exactly what that kernel returns for the launcher's arguments, the
  kernel is handed the single-scatter albedo of the optical properties as it is, and
  \<open>reduce\<close> works on the kernel's three arrays. The two-stream kernel is launched exactly
  once and the no-scattering kernel never: nothing in \<open>rte_sw\<close> looks at the optical
  properties to choose a solver.
\<close>

theorem rte_sw_two_stream_only:
  assumes "rte_sw solver fluxes_reduce ops top_at_1 mu0 inc_flux sfc_alb_dir sfc_alb_dif fluxes0
             = Inr s"
  shows "(\<exists>e_dir e_dif.
            expand_and_transpose ops sfc_alb_dir (zeros2 (get_ncol ops) (get_ngpt ops))
              = Inr e_dir \<and>
            expand_and_transpose ops sfc_alb_dif (zeros2 (get_ncol ops) (get_ngpt ops))
              = Inr e_dif \<and>
            (gpt_flux_up s, gpt_flux_dn s, gpt_flux_dir s)
              = solver (solver_input ops top_at_1 mu0 inc_flux (arr_out e_dir) (arr_out e_dif)) \<and>
            arg_ssa (solver_input ops top_at_1 mu0 inc_flux (arr_out e_dir) (arr_out e_dif))
              = get_ssa ops \<and>
            arg_tau (solver_input ops top_at_1 mu0 inc_flux (arr_out e_dir) (arr_out e_dif))
              = get_tau ops \<and>
            arg_g (solver_input ops top_at_1 mu0 inc_flux (arr_out e_dir) (arr_out e_dif))
              = get_g ops) \<and>
         fluxes s = fluxes_reduce (gpt_flux_up s) (gpt_flux_dn s) (gpt_flux_dir s)
                      ops top_at_1 fluxes0 \<and>
         Sw_solver_2stream \<in> set (calls s) \<and> Sw_solver_noscat \<notin> set (calls s) \<and>
         length (filter (\<lambda>c. c = Sw_solver_2stream) (calls s)) = 1"
proof (intro conjI)
  from assms show "\<exists>e_dir e_dif.
            expand_and_transpose ops sfc_alb_dir (zeros2 (get_ncol ops) (get_ngpt ops))
              = Inr e_dir \<and>
            expand_and_transpose ops sfc_alb_dif (zeros2 (get_ncol ops) (get_ngpt ops))
              = Inr e_dif \<and>
            (gpt_flux_up s, gpt_flux_dn s, gpt_flux_dir s)
              = solver (solver_input ops top_at_1 mu0 inc_flux (arr_out e_dir) (arr_out e_dif)) \<and>
            arg_ssa (solver_input ops top_at_1 mu0 inc_flux (arr_out e_dir) (arr_out e_dif))
              = get_ssa ops \<and>
            arg_tau (solver_input ops top_at_1 mu0 inc_flux (arr_out e_dir) (arr_out e_dif))
              = get_tau ops \<and>
            arg_g (solver_input ops top_at_1 mu0 inc_flux (arr_out e_dir) (arr_out e_dif))
              = get_g ops"
  proof (rule rte_sw_flux_arrays)
    fix e_dir e_dif
    assume "expand_and_transpose ops sfc_alb_dir (zeros2 (get_ncol ops) (get_ngpt ops))
              = Inr e_dir"
      and "expand_and_transpose ops sfc_alb_dif (zeros2 (get_ncol ops) (get_ngpt ops))
              = Inr e_dif"
      and "(gpt_flux_up s, gpt_flux_dn s, gpt_flux_dir s)
             = solver (solver_input ops top_at_1 mu0 inc_flux (arr_out e_dir) (arr_out e_dif))"
    then show ?thesis
      by (auto simp add: solver_input_def)
  qed
  from assms show "fluxes s = fluxes_reduce (gpt_flux_up s) (gpt_flux_dn s) (gpt_flux_dir s)
                      ops top_at_1 fluxes0"
    by (rule rte_sw_flux_arrays)
  from assms have c: "calls s = [Expand_and_transpose, Expand_and_transpose, Apply_BC_factor,
                     Apply_BC_0, Sw_solver_2stream, Reduce]"
    by (rule rte_sw_steps)
  from c show "Sw_solver_2stream \<in> set (calls s)" by simp
  from c show "Sw_solver_noscat \<notin> set (calls s)" by simp
  from c show "length (filter (\<lambda>c. c = Sw_solver_2stream) (calls s)) = 1" by simp
qed

theorem rte_sw_two_stream_only_witness:
  "elems3 (get_ssa ops_w) (1, 1, 1) = 0 \<and>
   (\<exists>s. rte_sw solver_mark reduce_w ops_w 0 mu0_w inc_w alb_w alb_w fluxes_w = Inr s \<and>
        elems3 (gpt_flux_up s) (1, 1, 1) = 1 \<and>
        fst (fluxes s) = gpt_flux_up s \<and>
        Sw_solver_2stream \<in> set (calls s) \<and> Sw_solver_noscat \<notin> set (calls s))"
proof -
  have z: "elems3 (get_ssa ops_w) (1, 1, 1) = 0"
    by (simp add: ops_w_def zeros3_def)
  have e: "expand_and_transpose ops_w alb_w (zeros2 (get_ncol ops_w) (get_ngpt ops_w))
             = Inr expanded_w"
    using expand_and_transpose_w by (simp add: ops_w_def)
  from e e have "\<exists>s. rte_sw solver_mark reduce_w ops_w 0 mu0_w inc_w alb_w alb_w fluxes_w = Inr s"
    by (rule rte_sw_returns)
  then obtain s
    where s: "rte_sw solver_mark reduce_w ops_w 0 mu0_w inc_w alb_w alb_w fluxes_w = Inr s" ..
  note t = rte_sw_two_stream_only [OF s]
  from t obtain e_dir e_dif :: expand_state where
    k: "(gpt_flux_up s, gpt_flux_dn s, gpt_flux_dir s)
          = solver_mark (solver_input ops_w 0 mu0_w inc_w (arr_out e_dir) (arr_out e_dif))"
    and a: "arg_ssa (solver_input ops_w 0 mu0_w inc_w (arr_out e_dir) (arr_out e_dif))
              = get_ssa ops_w"
    by blast
  from k a have "elems3 (gpt_flux_up s) (1, 1, 1) = 1 + elems3 (get_ssa ops_w) (1, 1, 1)"
    by (simp add: solver_mark_def)
  with z have up: "elems3 (gpt_flux_up s) (1, 1, 1) = 1"
    by simp
  from t have "fluxes s = reduce_w (gpt_flux_up s) (gpt_flux_dn s) (gpt_flux_dir s) ops_w 0 fluxes_w"
    by (elim conjE)
  then have fl: "fst (fluxes s) = gpt_flux_up s"
    by (simp add: reduce_w_def)
  from t have "Sw_solver_2stream \<in> set (calls s) \<and> Sw_solver_noscat \<notin> set (calls s)"
    by (elim conjE) (rule conjI)
  with s up fl have "\<exists>s. rte_sw solver_mark reduce_w ops_w 0 mu0_w inc_w alb_w alb_w fluxes_w = Inr s \<and>
        elems3 (gpt_flux_up s) (1, 1, 1) = 1 \<and>
        fst (fluxes s) = gpt_flux_up s \<and>
        Sw_solver_2stream \<in> set (calls s) \<and> Sw_solver_noscat \<notin> set (calls s)"
    by (intro exI [of _ s]) simp
  with z show ?thesis
    by (rule conjI)
qed


section \<open>The gas-optics engine\<close>



lemma fill3_dims: "dims3 (fill3 n1 n3 ok f a) = dims3 a"
  by (simp add: fill3_def)

lemma fill2_dims: "dims2 (fill2 n1 n2 f a) = dims2 a"
  by (simp add: fill2_def)






lemma invoke_this: "fst (invoke cv obj c) = fst obj"
  by (cases c) (simp_all add: invoke_def)

lemma foldl_invoke_this: "fst (foldl (invoke cv) obj cs) = fst obj"
  by (induction cs arbitrary: obj) (simp_all add: invoke_this)

text \<open>
  C6. The tropopause reference pressure of an engine is 9948.431564193395 Pa after
  either constructor, and no public operation of the engine changes it: after any
  sequence of public calls it is what it was. The private \<open>set_solar_variability\<close> leaves
  it alone as well.
\<close>

theorem press_ref_trop_fixed:
  "press_ref_trop (Gas_optics_nn_lw names tlw plk) = 9948.431564193395 \<and>
   press_ref_trop (Gas_optics_nn_sw names q f s tsi mg sb tsw ssa) = 9948.431564193395 \<and>
   press_ref_trop (set_solar_variability md_index sb_index this) = press_ref_trop this \<and>
   press_ref_trop (fst (foldl (invoke cv) (this, w) cs)) = press_ref_trop this"
  by (simp add: Gas_optics_nn_lw_def Gas_optics_nn_sw_def set_solar_variability_def
      press_ref_trop_init_def foldl_invoke_this)

text \<open>
  C7. \<open>set_solar_variability\<close> makes the effective solar source the linear combination
  of the quiet, facular and sunspot components weighted by the two indices. It is
  idempotent, and what it leaves depends on the indices of the last call only. Calling
  it with the default indices on a freshly constructed shortwave engine gives back that
  engine exactly. It changes no member but the effective solar source.
\<close>

theorem set_solar_variability_idempotent:
  "elems1 (solar_source (set_solar_variability md_index sb_index this)) igpt
     = elems1 (solar_source_quiet this) igpt
       + md_index * elems1 (solar_source_facular this) igpt
       + sb_index * elems1 (solar_source_sunspot this) igpt \<and>
   set_solar_variability md_index sb_index (set_solar_variability md_index sb_index this)
     = set_solar_variability md_index sb_index this \<and>
   set_solar_variability md_index sb_index (set_solar_variability md' sb' this)
     = set_solar_variability md_index sb_index this \<and>
   set_solar_variability mg sb (Gas_optics_nn_sw names q f s tsi mg sb tsw ssa)
     = Gas_optics_nn_sw names q f s tsi mg sb tsw ssa \<and>
   set_solar_variability md_index sb_index this
     = this\<lparr>solar_source := solar_source (set_solar_variability md_index sb_index this)\<rparr>"
  by (simp add: set_solar_variability_def Gas_optics_nn_sw_def)

text \<open>
  C8. Either \<open>gas_optics\<close> overload leaves the profile inputs \<open>play\<close>, \<open>plev\<close>, \<open>tlay\<close>,
  \<open>tlev\<close>, \<open>tsfc\<close>, \<open>col_dry\<close> and the gas-concentration store as they were, whether it
  fails or not. Of the caller's objects only the output containers can differ
  afterwards: the optical properties and the top-of-atmosphere source for the shortwave
  operation, the optical properties and the sources for the longwave one. They are
  written in place: the number of spectral points and bands, the band limits and the
  extents of every output array are the same after the call.
\<close>

theorem gas_optics_frame:
  "(let w' = snd (gas_optics_sw cv this w) in
      play w' = play w \<and> plev w' = plev w \<and> tlay w' = tlay w \<and> tlev w' = tlev w \<and>
      tsfc w' = tsfc w \<and> col_dry w' = col_dry w \<and> gas_desc w' = gas_desc w \<and>
      w' = w\<lparr>optical_props := optical_props w', toa_src := toa_src w'\<rparr> \<and>
      get_ngpt (optical_props w') = get_ngpt (optical_props w) \<and>
      get_nband (optical_props w') = get_nband (optical_props w) \<and>
      get_band_lims_gpoint (optical_props w') = get_band_lims_gpoint (optical_props w) \<and>
      dims3 (get_tau (optical_props w')) = dims3 (get_tau (optical_props w)) \<and>
      dims3 (get_ssa (optical_props w')) = dims3 (get_ssa (optical_props w)) \<and>
      dims3 (get_g (optical_props w')) = dims3 (get_g (optical_props w)) \<and>
      dims2 (toa_src w') = dims2 (toa_src w)) \<and>
   (let w' = snd (gas_optics_lw cv this w) in
      play w' = play w \<and> plev w' = plev w \<and> tlay w' = tlay w \<and> tlev w' = tlev w \<and>
      tsfc w' = tsfc w \<and> col_dry w' = col_dry w \<and> gas_desc w' = gas_desc w \<and>
      w' = w\<lparr>optical_props := optical_props w', sources := sources w'\<rparr> \<and>
      get_ngpt (optical_props w') = get_ngpt (optical_props w) \<and>
      get_nband (optical_props w') = get_nband (optical_props w) \<and>
      get_band_lims_gpoint (optical_props w') = get_band_lims_gpoint (optical_props w) \<and>
      dims3 (get_tau (optical_props w')) = dims3 (get_tau (optical_props w)) \<and>
      dims3 (lay_source (sources w')) = dims3 (lay_source (sources w)) \<and>
      dims3 (lev_source_inc (sources w')) = dims3 (lev_source_inc (sources w)) \<and>
      dims3 (lev_source_dec (sources w')) = dims3 (lev_source_dec (sources w)) \<and>
      dims2 (sfc_source (sources w')) = dims2 (sfc_source (sources w)))"
  by (simp add: gas_optics_sw_def gas_optics_lw_def Let_def compute_tau_ssa_nn_def
      compute_tau_sources_nn_def lay2sfc_factor_def fill3_dims fill2_dims
      split: option.splits)

text \<open>
  C9. A longwave \<open>gas_optics\<close> call for which some gas of the trained feature set is
  not in the gas-concentration store fails with a configuration error, and the caller's
  objects, the output containers among them, are left exactly as they were.
\<close>

theorem gas_optics_lw_missing_gas:
  assumes "name \<in> set (gas_names this)" and "gas_desc w name = None"
  shows "\<exists>m. gas_optics_lw cv this w = (Some (Configuration_error m), w)"
proof -
  from assms have "missing_gas this (gas_desc w) \<noteq> None"
    by (auto simp add: missing_gas_def find_None_iff)
  then show ?thesis
    by (auto simp add: gas_optics_lw_def)
qed

theorem gas_optics_lw_missing_gas_witness:
  "''o3'' \<in> set (gas_names lw_w) \<and> gas_desc caller_w ''o3'' = None \<and>
   (\<exists>m. gas_optics_lw cv_w lw_w caller_w = (Some (Configuration_error m), caller_w))"
proof -
  have n: "''o3'' \<in> set (gas_names lw_w)"
    by (simp add: lw_w_def Gas_optics_nn_lw_def)
  have g: "gas_desc caller_w ''o3'' = None"
    by (simp add: caller_w_def)
  from n g gas_optics_lw_missing_gas [OF n g, of cv_w] show ?thesis
    by blast
qed


section \<open>The driver's input stage\<close>

lemma read_and_set_vmr_absent:
  "variables input_nc (''vmr_'' @ gas_name) = None \<Longrightarrow>
   read_and_set_vmr gas_name n_col n_lay input_nc st =
     Inr (st\<lparr>warnings := warnings st @ [not_available gas_name]\<rparr>)"
  by (simp add: read_and_set_vmr_def variable_exists_def)

lemma read_and_set_vmr_rank1_mismatch:
  assumes "variables input_nc (''vmr_'' @ gas_name) = Some [(''lay'', d)]" and "d \<noteq> n_lay"
  shows "read_and_set_vmr gas_name n_col n_lay input_nc st =
           Inl (Runtime_error (illegal_dimensions gas_name))"
  using assms
  by (simp add: read_and_set_vmr_def variable_exists_def get_variable_dimensions_def
      map_size_def map_at_def bnd_def)

text \<open>
  A variable of one dimension that is not named \<open>lay\<close> is stopped too, by
  \<open>std::map::at\<close>: the exception is then \<open>std::out_of_range\<close>.
\<close>

lemma read_and_set_vmr_rank1_other_name:
  assumes "variables input_nc (''vmr_'' @ gas_name) = Some [(''col'', d)]"
  shows "read_and_set_vmr gas_name n_col n_lay input_nc st = Inl Out_of_range"
  using assms
  by (simp add: read_and_set_vmr_def variable_exists_def get_variable_dimensions_def
      map_size_def map_at_def bnd_def)

lemma read_and_set_vmr_rank2_mismatch:
  assumes "variables input_nc (''vmr_'' @ gas_name) = Some [(''lay'', d), (''col'', c)]"
    and "d \<noteq> n_lay \<or> c \<noteq> n_col"
  shows "read_and_set_vmr gas_name n_col n_lay input_nc st =
           Inl (Runtime_error (illegal_dimensions gas_name))"
  using assms
  by (auto simp add: read_and_set_vmr_def variable_exists_def get_variable_dimensions_def
      map_size_def map_at_def bnd_def)

text \<open>
  C10. The claim: a gas whose variable is absent only draws a warning and leaves the
  store as it was (lemma \<open>read_and_set_vmr_absent\<close>), and a variable that is present with
  dimensions other than the expected \<open>n_lay\<close>/\<open>n_col\<close> makes the call throw a runtime
  error before \<open>set_vmr\<close>. The second half holds for a variable of one or two dimensions
  named \<open>lay\<close> and \<open>col\<close> (the two lemmas above) and fails for three or more: the chain of
  tests on \<open>n_dims\<close> ends without an \<open>else\<close>, so the call returns normally, with the store
  and the warnings untouched. Here: \<open>vmr_h2o(lay = 4, col = 5, time = 1)\<close> read for 2
  columns and 3 layers.
\<close>

theorem read_and_set_vmr_rank3_silent:
  "read_and_set_vmr ''h2o'' 2 3 nc_rank3 driver_empty = Inr driver_empty"
  by (simp add: read_and_set_vmr_def variable_exists_def get_variable_dimensions_def
      map_size_def nc_rank3_def bnd_def)

end
